theory Spec2Isabelle
  imports Main "HOL-Library.Sublist" "HOL-Library.Char_ord" "HOL-Library.List_Lexorder"
    "HOL-Library.Code_Target_Numeral"
begin

section \<open>What the network answers\<close>

text \<open>
  Both modules call \<^verbatim>\<open>fetch(url)\<close> and then \<^verbatim>\<open>response.json()\<close>. The promise of
  \<^verbatim>\<open>fetch\<close> is rejected (a transport error, with its message) or resolves to a response
  with the fields the code reads: \<^verbatim>\<open>ok\<close>, \<^verbatim>\<open>status\<close>, \<^verbatim>\<open>statusText\<close>. The promise of
  \<^verbatim>\<open>json()\<close> is rejected with a SyntaxError (with its message) or resolves to the decoded
  value. The decoded value is typed: a release list for the download counter, a manifest
  object for the loader. A body that is valid JSON of another shape is outside this model.
\<close>

datatype 'a body = SyntaxError string | Json 'a

record 'a response =
  ok :: bool
  status :: nat
  statusText :: string
  json :: "'a body"

datatype 'a fetched = NetworkError string | Response "'a response"

section \<open>Numbers\<close>

text \<open>
  A JavaScript number is an IEEE 754 binary64 value: a significand of 53 bits and a
  power of two. The counts of this program are non-negative integers, held here as
  natural numbers. Every integer below \<open>2\<^sup>5\<^sup>3\<close> is a number; a result that needs more
  than 53 bits is rounded to the nearest number, ties to the even significand.
  \<open>log2floor n\<close> is \<open>\<lfloor>log\<^sub>2 n\<rfloor>\<close>, and \<open>roundTiesToEven n d\<close> is the integer nearest to
  \<open>n / d\<close>, the even one of two.
\<close>

fun log2floor :: "nat \<Rightarrow> nat" where
  "log2floor n = (if n < 2 then 0 else Suc (log2floor (n div 2)))"

declare log2floor.simps [simp del]

definition roundTiesToEven :: "nat \<Rightarrow> nat \<Rightarrow> nat" where
  "roundTiesToEven n d =
     (let q = n div d; r = n mod d
      in if 2 * r < d then q else if d < 2 * r then q + 1 else if even q then q else q + 1)"

text \<open>
  \<open>round64 n\<close> is the number that the exact integer result \<open>n\<close> of an operation
  becomes. (From \<open>2\<^sup>1\<^sup>0\<^sup>2\<^sup>4\<close> on JavaScript gives \<^verbatim>\<open>Infinity\<close>; such counts are outside
  this model.)
\<close>

definition round64 :: "nat \<Rightarrow> nat" where
  "round64 n =
     (if n < 2 ^ 53 then n
      else (let e = log2floor n - 52 in roundTiesToEven n (2 ^ e) * 2 ^ e))"

section \<open>functions/downloadcounter.js\<close>

subsection \<open>The release list\<close>

text \<open>
  A release object carries \<^verbatim>\<open>assets\<close>; \<open>None\<close> is a release whose \<^verbatim>\<open>assets\<close> is missing or
  is not an array (the test \<^verbatim>\<open>release.assets && Array.isArray(release.assets)\<close> fails).
  An asset carries \<^verbatim>\<open>download_count\<close>, a count (a non-negative integer that is a number);
  \<open>None\<close> is an asset without the field.
\<close>

record asset =
  download_count :: "nat option"

record release =
  assets :: "asset list option"

text \<open>\<^verbatim>\<open>asset.download_count || 0\<close>: a missing field and the falsy number 0 both give 0.\<close>

definition or_zero :: "nat option \<Rightarrow> nat" where
  "or_zero v = (case v of None \<Rightarrow> 0 | Some n \<Rightarrow> if n \<noteq> 0 then n else 0)"

text \<open>
  The body of the inner \<^verbatim>\<open>forEach\<close>: \<^verbatim>\<open>totalDownloads += asset.download_count || 0\<close>,
  an addition of numbers.
\<close>

definition add_asset :: "nat \<Rightarrow> asset \<Rightarrow> nat" where
  "add_asset totalDownloads a = round64 (totalDownloads + or_zero (download_count a))"

text \<open>The body of the outer \<^verbatim>\<open>forEach\<close>, guarded by the array test.\<close>

definition add_release :: "nat \<Rightarrow> release \<Rightarrow> nat" where
  "add_release totalDownloads r =
     (case assets r of None \<Rightarrow> totalDownloads | Some as \<Rightarrow> foldl add_asset totalDownloads as)"

definition sumDownloads :: "release list \<Rightarrow> nat" where
  "sumDownloads releases = foldl add_release 0 releases"

subsection \<open>The counter and its cache\<close>

text \<open>
  \<open>cache\<close> is the \<^verbatim>\<open>Map\<close> of the class. \<open>requests\<close> is the log of the URLs handed to
  \<^verbatim>\<open>fetch\<close>, oldest first: it is what "performs the underlying fetch" is counted on.
  The network may answer the same URL differently at different times, so it is indexed
  by the number of requests made before.
\<close>

record DownloadCounter =
  cache :: "string \<rightharpoonup> nat"
  requests :: "string list"

type_synonym release_api = "nat \<Rightarrow> string \<Rightarrow> release list fetched"

definition constructor :: DownloadCounter where
  "constructor = \<lparr>cache = Map.empty, requests = []\<rparr>"

text \<open>
  \<^verbatim>\<open>fetchDownloadCount\<close>, one awaited call. The cache is read first. On a miss the request is
  made; every exception of the \<^verbatim>\<open>try\<close> block (rejected fetch, the \<^verbatim>\<open>throw\<close> on
  \<^verbatim>\<open>!response.ok\<close>, rejected \<^verbatim>\<open>json()\<close>) ends in the \<^verbatim>\<open>catch\<close>, which returns 0 and leaves
  the cache alone; \<^verbatim>\<open>cache.set\<close> is reached only after the sum.
\<close>

definition fetchDownloadCount :: "release_api \<Rightarrow> string \<Rightarrow> DownloadCounter \<Rightarrow> nat \<times> DownloadCounter" where
  "fetchDownloadCount api releaseUrl c =
     (case cache c releaseUrl of
        Some v \<Rightarrow> (v, c)
      | None \<Rightarrow>
          (let c' = c\<lparr>requests := requests c @ [releaseUrl]\<rparr> in
           case api (length (requests c)) releaseUrl of
             NetworkError msg \<Rightarrow> (0, c')
           | Response r \<Rightarrow>
               if \<not> ok r then (0, c')
               else (case json r of
                       SyntaxError msg \<Rightarrow> (0, c')
                     | Json releases \<Rightarrow>
                         (let totalDownloads = sumDownloads releases
                          in (totalDownloads, c'\<lparr>cache := (cache c')(releaseUrl \<mapsto> totalDownloads)\<rparr>)))))"

definition clearCache :: "DownloadCounter \<Rightarrow> DownloadCounter" where
  "clearCache c = c\<lparr>cache := Map.empty\<rparr>"

text \<open>A run of awaited calls, one after the other, as the render loop makes them.\<close>

definition fetchAll :: "release_api \<Rightarrow> string list \<Rightarrow> DownloadCounter \<Rightarrow> DownloadCounter" where
  "fetchAll api urls c = foldl (\<lambda>c u. snd (fetchDownloadCount api u c)) c urls"

text \<open>The fetch of a URL fails: transport error, non-success status, or a body that does not parse.\<close>

definition fetch_fails :: "'a fetched \<Rightarrow> bool" where
  "fetch_fails f =
     (case f of NetworkError msg \<Rightarrow> True
      | Response r \<Rightarrow> \<not> ok r \<or> (case json r of SyntaxError msg \<Rightarrow> True | Json v \<Rightarrow> False))"

subsection \<open>The release-count response in the words of the specification\<close>

text \<open>
  The sum of the \<^verbatim>\<open>download_count\<close> fields over all assets of all releases, where a
  release without an asset array and an asset without the field contribute zero.
\<close>

definition asset_count :: "asset \<Rightarrow> nat" where
  "asset_count a = (case download_count a of None \<Rightarrow> 0 | Some n \<Rightarrow> n)"

definition release_count :: "release \<Rightarrow> nat" where
  "release_count r = (case assets r of None \<Rightarrow> 0 | Some as \<Rightarrow> sum_list (map asset_count as))"

definition spec_total :: "release list \<Rightarrow> nat" where
  "spec_total releases = sum_list (map release_count releases)"

subsection \<open>Concrete responses\<close>

text \<open>\<^verbatim>\<open>[{assets:[{download_count:3},{download_count:2}]}, {assets:[]}]\<close>\<close>

definition example_releases :: "release list" where
  "example_releases =
     [\<lparr>assets = Some [\<lparr>download_count = Some 3\<rparr>, \<lparr>download_count = Some 2\<rparr>]\<rparr>,
      \<lparr>assets = Some []\<rparr>]"

text \<open>An API that always answers with the example, one that is unreachable, and one
  whose first request fails and whose later requests succeed.\<close>

definition example_api :: release_api where
  "example_api n u =
     Response \<lparr>ok = True, status = 200, statusText = ''OK'', json = Json example_releases\<rparr>"

definition offline_api :: release_api where
  "offline_api n u = NetworkError ''Failed to fetch''"

definition flaky_api :: release_api where
  "flaky_api n u =
     (if n = 0 then NetworkError ''Failed to fetch''
      else Response \<lparr>ok = True, status = 200, statusText = ''OK'', json = Json example_releases\<rparr>)"

subsection \<open>Numbers as text\<close>

text \<open>
  \<^verbatim>\<open>count.toString()\<close> of a non-negative integer below \<open>10\<^sup>2\<^sup>1\<close>: its decimal digits.
\<close>

definition digit :: "nat \<Rightarrow> char" where
  "digit d = ''0123456789'' ! d"

fun toString :: "nat \<Rightarrow> string" where
  "toString n = (if n < 10 then [digit n] else toString (n div 10) @ [digit (n mod 10)])"

declare toString.simps [simp del]

subsection \<open>Division and \<^verbatim>\<open>toFixed(1)\<close> on binary64 numbers\<close>

text \<open>
  \<^verbatim>\<open>count / 1000\<close> is the quotient rounded to the nearest number. For integers
  \<open>b \<le> a < 2\<^sup>5\<^sup>3\<close> both operands are exact and the quotient is at least 1, so the result is
  \<open>significand / 2 ^ scale\<close> with \<open>scale = 52 - \<lfloor>log\<^sub>2 (a / b)\<rfloor>\<close> and the significand the
  integer nearest to \<open>a * 2 ^ scale / b\<close>. Everything is computed on integers; no real
  number is involved.
\<close>

record double =
  significand :: nat
  scale :: nat

definition divide :: "nat \<Rightarrow> nat \<Rightarrow> double" where
  "divide a b =
     (let k = 52 - log2floor (a div b)
      in \<lparr>significand = roundTiesToEven (a * 2 ^ k) b, scale = k\<rparr>)"

text \<open>
  \<^verbatim>\<open>x.toFixed(1)\<close> (ECMA-262, Number.prototype.toFixed): let \<open>n\<close> be an integer for which
  \<open>n / 10 - x\<close> is as close to zero as possible, the larger one if there are two; that is
  \<open>n = \<lfloor>10 x + 1/2\<rfloor>\<close>. The digits of \<open>n\<close>, padded with a leading zero when there is only
  one, are split before the last digit by a point.
\<close>

definition tenths :: "double \<Rightarrow> nat" where
  "tenths x = (20 * significand x + 2 ^ scale x) div 2 ^ (scale x + 1)"

definition toFixed1 :: "double \<Rightarrow> string" where
  "toFixed1 x =
     (let n = tenths x;
          m = toString n;
          m = (if length m \<le> 1 then ''0'' @ m else m);
          k = length m
      in take (k - 1) m @ ''.'' @ drop (k - 1) m)"

subsection \<open>formatCount\<close>

definition formatCount :: "nat \<Rightarrow> string" where
  "formatCount count =
     (if count \<ge> 1000000 then toFixed1 (divide count 1000000) @ ''M''
      else if count \<ge> 1000 then toFixed1 (divide count 1000) @ ''K''
      else toString count)"

text \<open>
  The words of the specification: \<open>n / 10\<close> written with one decimal, and \<open>n / 10\<close> being
  \<open>a / b\<close> rounded to one decimal, that is no further than \<open>1/20\<close> from it.
\<close>

definition one_decimal :: "nat \<Rightarrow> string" where
  "one_decimal n = toString (n div 10) @ ''.'' @ toString (n mod 10)"

definition nearest_tenth :: "nat \<Rightarrow> nat \<Rightarrow> nat \<Rightarrow> bool" where
  "nearest_tenth n a b = (20 * a \<le> 2 * n * b + b \<and> 2 * n * b \<le> 20 * a + b)"

section \<open>The repository loader (the variant with URL state)\<close>

text \<open>
  Reading a property of \<^verbatim>\<open>undefined\<close>, or calling a method that a value does not have,
  throws a TypeError.
\<close>

datatype error = TypeError

subsection \<open>Strings\<close>

text \<open>
  A string is a list of characters with the codes 0 to 255: text whose UTF-16 code
  units are all below 256 (ASCII and Latin-1), one character per code unit. The
  definitions below are those of JavaScript on such text. \<^verbatim>\<open>toLowerCase\<close> maps the
  capitals \<open>A\<close> to \<open>Z\<close> (65 to 90) and the Latin-1 capitals (192 to 222, without the
  multiplication sign 215) to the letter 32 codes above and leaves every other character;
  \<^verbatim>\<open>trim\<close> removes tab, line feed, vertical tab, form feed, carriage return, space and
  the no-break space (160); the default order of \<^verbatim>\<open>sort()\<close> is the lexicographic order of
  the code units (the order of \<open>string\<close> here). Text with code units from 256 on is outside
  this model.
\<close>

definition lowerChar :: "char \<Rightarrow> char" where
  "lowerChar c =
     (let n = of_char c :: nat
      in if (65 \<le> n \<and> n \<le> 90) \<or> (192 \<le> n \<and> n \<le> 222 \<and> n \<noteq> 215)
         then char_of (n + 32) else c)"

definition toLowerCase :: "string \<Rightarrow> string" where
  "toLowerCase s = map lowerChar s"

text \<open>\<^verbatim>\<open>s.includes(t)\<close>: \<open>t\<close> occurs in \<open>s\<close> as a contiguous piece.\<close>

definition str_includes :: "string \<Rightarrow> string \<Rightarrow> bool" where
  "str_includes s t = sublist t s"

definition isSpace :: "char \<Rightarrow> bool" where
  "isSpace c =
     (c \<in> set [CHR 0x09, CHR 0x0A, CHR 0x0B, CHR 0x0C, CHR 0x0D, CHR 0x20, CHR 0xA0])"

definition trim :: "string \<Rightarrow> string" where
  "trim s = rev (dropWhile isSpace (rev (dropWhile isSpace s)))"

text \<open>\<^verbatim>\<open>s.split(',')\<close>; the empty string gives one empty piece.\<close>

fun split_comma :: "string \<Rightarrow> string list" where
  "split_comma [] = [[]]"
| "split_comma (c # cs) =
     (if c = CHR '','' then [] # split_comma cs
      else (case split_comma cs of [] \<Rightarrow> [[c]] | w # ws \<Rightarrow> (c # w) # ws))"

text \<open>\<^verbatim>\<open>xs.join(',')\<close>\<close>

fun join_comma :: "string list \<Rightarrow> string" where
  "join_comma [] = []"
| "join_comma [x] = x"
| "join_comma (x # y # ys) = x @ '','' @ join_comma (y # ys)"

text \<open>
  \<^verbatim>\<open>s.replace(/[^a-z0-9]+/g, '-')\<close>: every maximal run of characters outside
  \<^verbatim>\<open>[a-z0-9]\<close> becomes one hyphen.
\<close>

definition alnum :: "char \<Rightarrow> bool" where
  "alnum c = (c \<in> set ''abcdefghijklmnopqrstuvwxyz0123456789'')"

function replace_runs :: "string \<Rightarrow> string" where
  "replace_runs [] = []"
| "replace_runs (c # cs) =
     (if alnum c then c # replace_runs cs
      else CHR ''-'' # replace_runs (dropWhile (\<lambda>c. \<not> alnum c) cs))"
  by pat_completeness auto
termination
  by (relation "measure length") (auto simp: length_dropWhile_le less_Suc_eq_le)

text \<open>The card id of a package: \<^verbatim>\<open>pkg.name.toLowerCase().replace(/[^a-z0-9]+/g, '-')\<close>.\<close>

definition cardId :: "string \<Rightarrow> string" where
  "cardId name = replace_runs (toLowerCase name)"

subsection \<open>convertToRawUrl\<close>

text \<open>
  \<^verbatim>\<open>/github\.com\/([^\/]+)\/([^\/]+)/\<close> tried at the start of a text: after the literal, a
  non-empty run without slash (greedy, so the whole run), a slash, and again a non-empty
  run without slash.
\<close>

definition githubPattern_here :: "string \<Rightarrow> (string \<times> string) option" where
  "githubPattern_here s =
     (if prefix ''github.com/'' s then
        (let rest = drop (length ''github.com/'') s;
             owner = takeWhile (\<lambda>c. c \<noteq> CHR ''/'') rest;
             rest = dropWhile (\<lambda>c. c \<noteq> CHR ''/'') rest
         in if owner = [] \<or> rest = [] then None
            else (let repo = takeWhile (\<lambda>c. c \<noteq> CHR ''/'') (tl rest)
                  in if repo = [] then None else Some (owner, repo)))
      else None)"

text \<open>\<^verbatim>\<open>url.match(githubPattern)\<close>: the leftmost position where the pattern matches.\<close>

fun githubPattern :: "string \<Rightarrow> (string \<times> string) option" where
  "githubPattern [] = None"
| "githubPattern (c # cs) =
     (case githubPattern_here (c # cs) of Some m \<Rightarrow> Some m | None \<Rightarrow> githubPattern cs)"

text \<open>\<^verbatim>\<open>repo.replace(/\.git$/, '')\<close>\<close>

definition strip_git :: "string \<Rightarrow> string" where
  "strip_git repo =
     (if suffix ''.git'' repo then take (length repo - length ''.git'') repo else repo)"

definition convertToRawUrl :: "string \<Rightarrow> string" where
  "convertToRawUrl url =
     (if str_includes url ''raw.githubusercontent.com'' then url
      else (case githubPattern url of
              Some (owner, repo) \<Rightarrow>
                ''https://raw.githubusercontent.com/'' @ owner @ ''/'' @ strip_git repo @ ''/main''
            | None \<Rightarrow> url))"

subsection \<open>Manifests\<close>

text \<open>
  A package is the manifest object as \<^verbatim>\<open>response.json()\<close> decoded it; the loader keeps
  it unchanged and resolves the fallbacks where it reads a field. Every field is
  optional; \<open>None\<close> is an absent field. Fields hold the types the manifest format gives
  them: strings, string arrays, and for \<^verbatim>\<open>author\<close> a string or an object that may have a
  \<^verbatim>\<open>name\<close>. Fields of other types are outside this model. The fields \<^verbatim>\<open>status\<close> and
  \<^verbatim>\<open>keywords\<close> are \<open>status_field\<close> and \<open>keywords_field\<close> here, and \<open>releaseLink\<close> is
  \<^verbatim>\<open>links.release\<close>.
\<close>

datatype author_field = AuthorString string | AuthorObject "string option"

record manifest =
  name :: "string option"
  displayName :: "string option"
  author :: "author_field option"
  description :: "string option"
  version :: "string option"
  status_field :: "string option"
  keywords_field :: "string list option"
  tags :: "string list option"
  releaseLink :: "string option"

text \<open>\<^verbatim>\<open>a || b\<close> on optional strings: the empty string is falsy, as an absent value is.\<close>

definition js_or :: "string option \<Rightarrow> string option \<Rightarrow> string option" where
  "js_or a b = (case a of None \<Rightarrow> b | Some s \<Rightarrow> if s \<noteq> [] then a else b)"

text \<open>\<^verbatim>\<open>a || 'literal'\<close>\<close>

definition js_or_literal :: "string option \<Rightarrow> string \<Rightarrow> string" where
  "js_or_literal a lit = (case a of None \<Rightarrow> lit | Some s \<Rightarrow> if s \<noteq> [] then s else lit)"

text \<open>
  \<^verbatim>\<open>pkg.author?.name || pkg.author || fallback\<close>. The value is a string, or the author
  object itself when the object has no non-empty name (an object is truthy).
\<close>

datatype author_value = AuthorText string | AuthorObjectItself

definition resolveAuthor :: "author_field option \<Rightarrow> string \<Rightarrow> author_value" where
  "resolveAuthor a fallback =
     (case a of
        None \<Rightarrow> AuthorText fallback
      | Some (AuthorString s) \<Rightarrow> AuthorText (if s \<noteq> [] then s else fallback)
      | Some (AuthorObject n) \<Rightarrow>
          (case n of None \<Rightarrow> AuthorObjectItself
           | Some s \<Rightarrow> if s \<noteq> [] then AuthorText s else AuthorObjectItself))"

text \<open>\<^verbatim>\<open>pkg.keywords || pkg.tags || []\<close>: an array is truthy even when empty.\<close>

definition resolveTags :: "manifest \<Rightarrow> string list" where
  "resolveTags pkg =
     (case keywords_field pkg of Some ks \<Rightarrow> ks
      | None \<Rightarrow> (case tags pkg of Some ts \<Rightarrow> ts | None \<Rightarrow> []))"

text \<open>
  \<^verbatim>\<open>createPackageCard\<close>, with the values that it writes into the card. The card id is
  computed first: \<^verbatim>\<open>pkg.name.toLowerCase()\<close> throws when the manifest has no name, and the
  promise of the function is rejected. Then the download count is awaited when the
  manifest has a release link (\<^verbatim>\<open>pkg.links && pkg.links.release\<close>), and the fields are
  resolved: \<^verbatim>\<open>pkg.displayName || pkg.name\<close>, the author with the fallback \<open>Unknown\<close>,
  \<^verbatim>\<open>pkg.keywords || pkg.tags || []\<close> and \<^verbatim>\<open>pkg.status || 'unknown'\<close>. The description
  and the version are written as they are.
\<close>

record packageCard =
  card_id :: string
  card_displayName :: string
  card_authorName :: author_value
  card_description :: "string option"
  card_status :: string
  card_version :: "string option"
  card_downloads :: string
  card_tags :: "string list"

definition createPackageCard ::
  "release_api \<Rightarrow> manifest \<Rightarrow> DownloadCounter \<Rightarrow> error + (packageCard \<times> DownloadCounter)" where
  "createPackageCard api pkg c =
     (case name pkg of
        None \<Rightarrow> Inl TypeError
      | Some packageName \<Rightarrow>
          (let (downloadCount, c') =
                 (case releaseLink pkg of
                    None \<Rightarrow> (0, c)
                  | Some url \<Rightarrow> if url \<noteq> [] then fetchDownloadCount api url c else (0, c))
           in Inr (\<lparr>card_id = cardId packageName,
                    card_displayName = js_or_literal (displayName pkg) packageName,
                    card_authorName = resolveAuthor (author pkg) ''Unknown'',
                    card_description = description pkg,
                    card_status = js_or_literal (status_field pkg) ''unknown'',
                    card_version = version pkg,
                    card_downloads = formatCount downloadCount,
                    card_tags = resolveTags pkg\<rparr>, c')))"

text \<open>The card of a call that returned.\<close>

definition card_of :: "error + (packageCard \<times> DownloadCounter) \<Rightarrow> packageCard option" where
  "card_of r = (case r of Inl e \<Rightarrow> None | Inr (built, c) \<Rightarrow> Some built)"

text \<open>The constants of the callback of \<^verbatim>\<open>applyFilters\<close> (lines 950 to 952).\<close>

definition filter_displayName :: "manifest \<Rightarrow> string option" where
  "filter_displayName pkg = js_or (displayName pkg) (name pkg)"

definition filter_authorName :: "manifest \<Rightarrow> author_value" where
  "filter_authorName pkg = resolveAuthor (author pkg) []"

definition filter_tags :: "manifest \<Rightarrow> string list" where
  "filter_tags pkg = resolveTags pkg"

subsection \<open>The state of the loader\<close>

text \<open>
  The four fields of the class, and what the methods read and write outside it: the
  value of the search input, the text of the error element, and \<^verbatim>\<open>window.location\<close>
  (the query parameters as \<^verbatim>\<open>URLSearchParams\<close> decodes them, and the fragment without
  its \<open>#\<close>). A \<^verbatim>\<open>Set\<close> is the list of its elements in insertion order, without
  repetition. Rendering the cards is not modelled.
\<close>

record RepositoryLoader =
  packages :: "manifest list"
  filteredPackages :: "manifest list"
  allTags :: "string list"
  selectedTags :: "string list"
  searchInput :: string
  errorMessage :: string
  urlParams :: "(string \<times> string) list"
  urlHash :: string

definition set_add :: "'a \<Rightarrow> 'a list \<Rightarrow> 'a list" where
  "set_add x xs = (if x \<in> set xs then xs else xs @ [x])"

definition set_delete :: "'a \<Rightarrow> 'a list \<Rightarrow> 'a list" where
  "set_delete x xs = removeAll x xs"

text \<open>An exception that leaves a method, with the state the method had reached.\<close>

datatype 'a outcome = Completed 'a | Threw error 'a

definition state_of :: "'a outcome \<Rightarrow> 'a" where
  "state_of r = (case r of Completed s \<Rightarrow> s | Threw e s \<Rightarrow> s)"

definition showError :: "string \<Rightarrow> RepositoryLoader \<Rightarrow> RepositoryLoader" where
  "showError message s =
     s\<lparr>errorMessage :=
          (if errorMessage s \<noteq> [] then errorMessage s @ [CHR 0x0A] @ message else message)\<rparr>"

subsection \<open>loadManifest and loadManifests\<close>

text \<open>\<^verbatim>\<open>manifest.keywords || manifest.tags\<close>, then the test \<^verbatim>\<open>tags && Array.isArray(tags)\<close>.\<close>

definition manifestTags :: "manifest \<Rightarrow> string list option" where
  "manifestTags m = (case keywords_field m of Some ks \<Rightarrow> Some ks | None \<Rightarrow> tags m)"

text \<open>
  \<^verbatim>\<open>loadManifest\<close>: the whole body is one \<^verbatim>\<open>try\<close>; the \<^verbatim>\<open>catch\<close> reports the message and
  returns \<^verbatim>\<open>null\<close> (\<open>None\<close>). The state is written only after the last \<^verbatim>\<open>await\<close>, so the
  effect of one call on the state is one step.
\<close>

definition loadManifest ::
  "(string \<Rightarrow> manifest fetched) \<Rightarrow> string \<Rightarrow> RepositoryLoader \<Rightarrow> manifest option \<times> RepositoryLoader" where
  "loadManifest fetch repoUrl s =
     (let rawUrl = convertToRawUrl repoUrl;
          packageUrl = rawUrl @ ''/package.json'';
          caught = (\<lambda>message.
            (None, showError (''Failed to load package from '' @ repoUrl @ '': '' @ message) s))
      in case fetch packageUrl of
           NetworkError message \<Rightarrow> caught message
         | Response response \<Rightarrow>
             if \<not> ok response
             then caught (''HTTP '' @ toString (status response) @ '': '' @ statusText response)
             else (case json response of
                     SyntaxError message \<Rightarrow> caught message
                   | Json manifest \<Rightarrow>
                       (Some manifest,
                        case manifestTags manifest of
                          None \<Rightarrow> s
                        | Some ts \<Rightarrow> s\<lparr>allTags := foldl (\<lambda>acc tag. set_add tag acc) (allTags s) ts\<rparr>)))"

text \<open>
  \<^verbatim>\<open>loadManifests\<close>. \<^verbatim>\<open>repositories.map\<close> starts one \<^verbatim>\<open>loadManifest\<close> per source, in source
  order, so request \<open>i\<close> is the one of source \<open>i\<close>; the network answers request \<open>i\<close> with
  \<open>net i\<close>. The promises complete in an order the network decides: \<open>order\<close> lists the
  source indices in completion order. \<open>settle\<close> is the completion of promise \<open>i\<close>: its
  effects on the state happen then, and its value is stored at position \<open>i\<close> of the
  result array of \<^verbatim>\<open>Promise.allSettled\<close>. \<^verbatim>\<open>loadManifest\<close> never rejects, so every entry is
  fulfilled and the final \<^verbatim>\<open>filter\<close> keeps the values that are not \<^verbatim>\<open>null\<close>.
\<close>

type_synonym manifest_net = "nat \<Rightarrow> string \<Rightarrow> manifest fetched"

definition settle ::
  "manifest_net \<Rightarrow> string list \<Rightarrow> (manifest option option list \<times> RepositoryLoader) \<Rightarrow> nat
     \<Rightarrow> (manifest option option list \<times> RepositoryLoader)" where
  "settle net repositories st i =
     (let (results, s) = st
      in if i < length repositories \<and> results ! i = None
         then (let (v, s') = loadManifest (net i) (repositories ! i) s
               in (results[i := Some v], s'))
         else st)"

definition loadManifests ::
  "manifest_net \<Rightarrow> string list \<Rightarrow> nat list \<Rightarrow> RepositoryLoader \<Rightarrow> RepositoryLoader" where
  "loadManifests net repositories order s =
     (let (results, s') = foldl (settle net repositories) (replicate (length repositories) None, s) order
      in s'\<lparr>packages := List.map_filter (\<lambda>r. case r of Some (Some m) \<Rightarrow> Some m | _ \<Rightarrow> None) results\<rparr>)"

text \<open>Every promise completes, once: the only orders \<^verbatim>\<open>await Promise.allSettled\<close> returns from.\<close>

definition completion_order :: "nat list \<Rightarrow> nat \<Rightarrow> bool" where
  "completion_order order n = (distinct order \<and> set order = {0..<n})"

text \<open>
  In the words of the specification: the package of a source whose fetch, parse and
  normalization succeeded; the batch result lists them in source order.
\<close>

definition loaded :: "manifest fetched \<Rightarrow> manifest option" where
  "loaded f =
     (case f of NetworkError msg \<Rightarrow> None
      | Response r \<Rightarrow> if ok r then (case json r of SyntaxError msg \<Rightarrow> None | Json m \<Rightarrow> Some m) else None)"

definition source_package :: "manifest_net \<Rightarrow> string list \<Rightarrow> nat \<Rightarrow> manifest option" where
  "source_package net repositories i =
     loaded (net i (convertToRawUrl (repositories ! i) @ ''/package.json''))"

definition successful_packages :: "manifest_net \<Rightarrow> string list \<Rightarrow> manifest list" where
  "successful_packages net repositories =
     List.map_filter (source_package net repositories) [0..<length repositories]"

subsection \<open>applyFilters\<close>

text \<open>
  \<^verbatim>\<open>Array.prototype.filter\<close> with a callback that may throw: the first exception leaves
  the loop and nothing is returned.
\<close>

fun filterE :: "('a \<Rightarrow> error + bool) \<Rightarrow> 'a list \<Rightarrow> error + 'a list" where
  "filterE f [] = Inr []"
| "filterE f (x # xs) =
     (case f x of
        Inl e \<Rightarrow> Inl e
      | Inr b \<Rightarrow> (case filterE f xs of Inl e \<Rightarrow> Inl e | Inr ys \<Rightarrow> Inr (if b then x # ys else ys)))"

text \<open>
  \<^verbatim>\<open>matchesSearch\<close>, a chain of \<^verbatim>\<open>||\<close> evaluated from the left until one operand is true.
  \<^verbatim>\<open>v.toLowerCase()\<close> throws a TypeError when \<open>v\<close> is \<^verbatim>\<open>undefined\<close> or an object.
\<close>

definition matchesSearch :: "string \<Rightarrow> manifest \<Rightarrow> error + bool" where
  "matchesSearch searchTerm pkg =
     (if searchTerm = [] then Inr True
      else case name pkg of
        None \<Rightarrow> Inl TypeError
      | Some n \<Rightarrow>
          if str_includes (toLowerCase n) searchTerm then Inr True
          else case filter_displayName pkg of
            None \<Rightarrow> Inl TypeError
          | Some d \<Rightarrow>
              if str_includes (toLowerCase d) searchTerm then Inr True
              else case description pkg of
                None \<Rightarrow> Inl TypeError
              | Some ds \<Rightarrow>
                  if str_includes (toLowerCase ds) searchTerm then Inr True
                  else case filter_authorName pkg of
                    AuthorObjectItself \<Rightarrow> Inl TypeError
                  | AuthorText a \<Rightarrow> Inr (str_includes (toLowerCase a) searchTerm))"

text \<open>\<^verbatim>\<open>selectedTags.size === 0 || (tags && tags.some(tag => selectedTags.has(tag)))\<close>\<close>

definition matchesTags :: "string list \<Rightarrow> manifest \<Rightarrow> bool" where
  "matchesTags selected pkg =
     (selected = [] \<or> list_ex (\<lambda>tag. tag \<in> set selected) (filter_tags pkg))"

definition filterCallback :: "string \<Rightarrow> string list \<Rightarrow> manifest \<Rightarrow> error + bool" where
  "filterCallback searchTerm selected pkg =
     (case matchesSearch searchTerm pkg of
        Inl e \<Rightarrow> Inl e
      | Inr b \<Rightarrow> Inr (b \<and> matchesTags selected pkg))"

definition applyFilters :: "RepositoryLoader \<Rightarrow> RepositoryLoader outcome" where
  "applyFilters s =
     (let searchTerm = toLowerCase (searchInput s)
      in case filterE (filterCallback searchTerm (selectedTags s)) (packages s) of
           Inl e \<Rightarrow> Threw e s
         | Inr result \<Rightarrow> Completed (s\<lparr>filteredPackages := result\<rparr>))"

subsection \<open>The URL: updateURL and loadFromURL\<close>

text \<open>\<^verbatim>\<open>URLSearchParams\<close>: \<^verbatim>\<open>get\<close> returns the first value of a name, \<^verbatim>\<open>set\<close> replaces the
  first pair of the name and removes the others, or appends.\<close>

definition params_get :: "(string \<times> string) list \<Rightarrow> string \<Rightarrow> string option" where
  "params_get ps k = map_of ps k"

fun params_set :: "string \<Rightarrow> string \<Rightarrow> (string \<times> string) list \<Rightarrow> (string \<times> string) list" where
  "params_set k v [] = [(k, v)]"
| "params_set k v (p # ps) =
     (if fst p = k then (k, v) # filter (\<lambda>q. fst q \<noteq> k) ps else p # params_set k v ps)"

text \<open>
  \<^verbatim>\<open>updateURL\<close>: \<^verbatim>\<open>pushState\<close> with the path and the parameters, so the fragment is gone.
\<close>

definition updateURL :: "RepositoryLoader \<Rightarrow> RepositoryLoader" where
  "updateURL s =
     (let params = [];
          params = (if trim (searchInput s) \<noteq> []
                    then params_set ''search'' (trim (searchInput s)) params else params);
          params = (if length (selectedTags s) > 0
                    then params_set ''tags'' (join_comma (sort (selectedTags s))) params else params)
      in s\<lparr>urlParams := params, urlHash := []\<rparr>)"

definition truthy :: "string option \<Rightarrow> bool" where
  "truthy v = (case v of None \<Rightarrow> False | Some s \<Rightarrow> s \<noteq> [])"

definition loadFromURL :: "RepositoryLoader \<Rightarrow> RepositoryLoader outcome" where
  "loadFromURL s0 =
     (let params = urlParams s0;
          hash = urlHash s0;
          s = s0\<lparr>selectedTags := [], searchInput := []\<rparr>
      in if hash \<noteq> [] \<and> params = [] then
           (case filterE (\<lambda>pkg. case name pkg of
                                   None \<Rightarrow> Inl TypeError
                                 | Some n \<Rightarrow> Inr (cardId n = hash)) (packages s) of
              Inl e \<Rightarrow> Threw e s
            | Inr result \<Rightarrow> Completed (s\<lparr>filteredPackages := result\<rparr>))
         else
           (let searchQuery = js_or (params_get params ''search'') (params_get params ''q'');
                s = (case searchQuery of
                       None \<Rightarrow> s
                     | Some q \<Rightarrow> if q \<noteq> [] then s\<lparr>searchInput := q\<rparr> else s);
                tagsParam = params_get params ''tags'';
                s = (case tagsParam of
                       None \<Rightarrow> s
                     | Some ts \<Rightarrow>
                         if ts \<noteq> [] then
                           (let tagArray = filter (\<lambda>t. t \<noteq> []) (map trim (split_comma ts))
                            in s\<lparr>selectedTags :=
                                  foldl (\<lambda>sel tag. if tag \<in> set (allTags s) then set_add tag sel else sel)
                                    (selectedTags s) tagArray\<rparr>)
                         else s)
            in if truthy searchQuery \<or> truthy tagsParam then applyFilters s
               else Completed (s\<lparr>filteredPackages := packages s\<rparr>)))"

subsection \<open>The other handlers\<close>

definition handleSearch :: "RepositoryLoader \<Rightarrow> RepositoryLoader outcome" where
  "handleSearch s = applyFilters (updateURL s)"

definition toggleTag :: "string \<Rightarrow> RepositoryLoader \<Rightarrow> RepositoryLoader outcome" where
  "toggleTag tag s =
     (let s = (if tag \<in> set (selectedTags s)
               then s\<lparr>selectedTags := set_delete tag (selectedTags s)\<rparr>
               else s\<lparr>selectedTags := set_add tag (selectedTags s)\<rparr>)
      in applyFilters (updateURL s))"

definition clearFilters :: "RepositoryLoader \<Rightarrow> RepositoryLoader" where
  "clearFilters s =
     s\<lparr>selectedTags := [], searchInput := [], urlParams := [], urlHash := [],
       filteredPackages := packages s\<rparr>"

text \<open>\<^verbatim>\<open>buildTagsList\<close>: the labels of the tag buttons, \<^verbatim>\<open>Array.from(this.allTags).sort()\<close>.\<close>

definition buildTagsList :: "RepositoryLoader \<Rightarrow> string list" where
  "buildTagsList s = sort (allTags s)"

text \<open>The loader as its constructor leaves it, on a page with the given location.\<close>

definition newLoader :: "(string \<times> string) list \<Rightarrow> string \<Rightarrow> RepositoryLoader" where
  "newLoader params hash =
     \<lparr>packages = [], filteredPackages = [], allTags = [], selectedTags = [],
      searchInput = [], errorMessage = [], urlParams = params, urlHash = hash\<rparr>"

subsection \<open>The filter and the direct link in the words of the specification\<close>

text \<open>The slug of a package: its card id, when it has a name.\<close>

definition slug :: "manifest \<Rightarrow> string option" where
  "slug pkg = map_option cardId (name pkg)"

text \<open>
  Case-insensitive comparison. Two characters are the same letter when they are equal
  or one is a capital (\<open>A\<close> to \<open>Z\<close>, or a Latin-1 capital) and the other its small
  letter, 32 codes above. A query occurs in a text when, from some position of the text
  on, each character of the query is the same letter as the character of the text.
\<close>

definition capital :: "char \<Rightarrow> bool" where
  "capital c =
     (let n = of_char c :: nat
      in (65 \<le> n \<and> n \<le> 90) \<or> (192 \<le> n \<and> n \<le> 214) \<or> (216 \<le> n \<and> n \<le> 222))"

definition same_letter :: "char \<Rightarrow> char \<Rightarrow> bool" where
  "same_letter a b =
     (a = b \<or> (capital a \<and> (of_char b :: nat) = of_char a + 32)
            \<or> (capital b \<and> (of_char a :: nat) = of_char b + 32))"

fun ci_prefix :: "string \<Rightarrow> string \<Rightarrow> bool" where
  "ci_prefix [] t = True"
| "ci_prefix (a # q) [] = False"
| "ci_prefix (a # q) (b # t) = (same_letter a b \<and> ci_prefix q t)"

fun ci_occurs :: "string \<Rightarrow> string \<Rightarrow> bool" where
  "ci_occurs q [] = (q = [])"
| "ci_occurs q (b # t) = (ci_prefix q (b # t) \<or> ci_occurs q t)"

text \<open>
  The query is a case-insensitive substring of a field; a package without the field
  does not match by it.
\<close>

definition ci_substring :: "string \<Rightarrow> string option \<Rightarrow> bool" where
  "ci_substring query field =
     (case field of None \<Rightarrow> False | Some text \<Rightarrow> ci_occurs query text)"

text \<open>
  The filter as the specification states it, on the Package of its data model: the
  displayName falls back to the name, and the author is \<^verbatim>\<open>author.name\<close>, else the author
  string, else the literal \<open>Unknown\<close>.
\<close>

definition spec_displayName :: "manifest \<Rightarrow> string option" where
  "spec_displayName pkg = (case displayName pkg of None \<Rightarrow> name pkg | Some d \<Rightarrow> Some d)"

definition spec_author :: "manifest \<Rightarrow> string" where
  "spec_author pkg =
     (case author pkg of
        Some (AuthorObject (Some n)) \<Rightarrow> n
      | Some (AuthorString a) \<Rightarrow> a
      | _ \<Rightarrow> ''Unknown'')"

definition has_selected_tag :: "string list \<Rightarrow> manifest \<Rightarrow> bool" where
  "has_selected_tag selected pkg =
     (selected = [] \<or> (\<exists>tag \<in> set (resolveTags pkg). tag \<in> set selected))"

definition spec_included :: "string \<Rightarrow> string list \<Rightarrow> manifest \<Rightarrow> bool" where
  "spec_included query selected pkg =
     ((query = [] \<or> ci_substring query (name pkg) \<or> ci_substring query (spec_displayName pkg)
        \<or> ci_substring query (description pkg) \<or> ci_occurs query (spec_author pkg))
      \<and> has_selected_tag selected pkg)"

text \<open>
  The filter with the fields as the manifest has them: the author of a package as text
  is \<^verbatim>\<open>author.name\<close>, or \<^verbatim>\<open>author\<close> when it is a string, and a package without author
  has no author text.
\<close>

definition author_text :: "manifest \<Rightarrow> string option" where
  "author_text pkg =
     (case author pkg of
        None \<Rightarrow> None
      | Some (AuthorString s) \<Rightarrow> Some s
      | Some (AuthorObject n) \<Rightarrow> n)"

definition included :: "string \<Rightarrow> string list \<Rightarrow> manifest \<Rightarrow> bool" where
  "included query selected pkg =
     ((query = [] \<or> ci_substring query (name pkg) \<or> ci_substring query (displayName pkg)
        \<or> ci_substring query (description pkg) \<or> ci_substring query (author_text pkg))
      \<and> has_selected_tag selected pkg)"

text \<open>
  A package that has a name and a description, and whose author, when present, is a
  string or an object with a non-empty name.
\<close>

definition is_package :: "manifest \<Rightarrow> bool" where
  "is_package pkg =
     (name pkg \<noteq> None \<and> description pkg \<noteq> None
      \<and> (case author pkg of Some (AuthorObject n) \<Rightarrow> truthy n | _ \<Rightarrow> True))"

subsection \<open>Concrete packages\<close>

definition pkg_my_package_1 :: manifest where
  "pkg_my_package_1 =
     \<lparr>name = Some ''My Package 1'', displayName = None, author = None,
      description = Some ''Tools'', version = Some ''1.0.0'', status_field = None,
      keywords_field = Some [''b'', ''a''], tags = None, releaseLink = None\<rparr>"

definition pkg_other :: manifest where
  "pkg_other =
     \<lparr>name = Some ''other'', displayName = Some ''Foo Kit'',
      author = Some (AuthorObject (Some ''Ann'')),
      description = Some ''Shaders'', version = Some ''0.1.0'', status_field = Some ''stable'',
      keywords_field = None, tags = Some [''x,y''], releaseLink = None\<rparr>"

definition pkg_my_package :: manifest where
  "pkg_my_package = pkg_other\<lparr>name := Some ''my-package-1''\<rparr>"


text \<open>A manifest without name, and one whose author is an object without name.\<close>

definition pkg_nameless :: manifest where
  "pkg_nameless = pkg_my_package_1\<lparr>name := None\<rparr>"

definition pkg_anonymous :: manifest where
  "pkg_anonymous = pkg_my_package_1\<lparr>author := Some (AuthorObject None)\<rparr>"

subsection \<open>Concrete loader states\<close>

text \<open>
  A page opened at \<^verbatim>\<open>#my-package-1\<close> with no query parameters, after two packages were
  loaded; and the same page when two loaded packages share the slug.
\<close>

definition direct_link_state :: RepositoryLoader where
  "direct_link_state =
     (newLoader [] ''my-package-1'')\<lparr>packages := [pkg_other, pkg_my_package_1],
        selectedTags := [''x''], searchInput := ''zzz''\<rparr>"

definition clashing_state :: RepositoryLoader where
  "clashing_state =
     (newLoader [] ''my-package-1'')\<lparr>packages := [pkg_my_package, pkg_my_package_1]\<rparr>"

text \<open>Two packages loaded, the tag \<open>a\<close> selected and \<open>PACK\<close> typed into the search input.\<close>

definition filter_state :: RepositoryLoader where
  "filter_state =
     (newLoader [] [])\<lparr>packages := [pkg_other, pkg_my_package_1],
        allTags := [''x,y'', ''b'', ''a''], selectedTags := [''a''], searchInput := ''PACK''\<rparr>"

subsection \<open>Sessions\<close>

text \<open>
  What happens to a loader during a session: a batch of manifests is loaded, the
  location changes and is read (\<^verbatim>\<open>popstate\<close>), the user types, searches, toggles a tag or
  clears the filters. \<open>perform\<close> gives the state a handler leaves, whether it returned
  or threw.
\<close>

datatype action =
    LoadManifests manifest_net "string list" "nat list"
  | SetLocation "(string \<times> string) list" string
  | LoadFromURL
  | SetSearchInput string
  | HandleSearch
  | ToggleTag string
  | ClearFilters

definition perform :: "action \<Rightarrow> RepositoryLoader \<Rightarrow> RepositoryLoader" where
  "perform a s =
     (case a of
        LoadManifests net repositories order \<Rightarrow> loadManifests net repositories order s
      | SetLocation params hash \<Rightarrow> s\<lparr>urlParams := params, urlHash := hash\<rparr>
      | LoadFromURL \<Rightarrow> state_of (loadFromURL s)
      | SetSearchInput text \<Rightarrow> s\<lparr>searchInput := text\<rparr>
      | HandleSearch \<Rightarrow> state_of (handleSearch s)
      | ToggleTag tag \<Rightarrow> state_of (toggleTag tag s)
      | ClearFilters \<Rightarrow> clearFilters s)"

definition session :: "RepositoryLoader \<Rightarrow> action list \<Rightarrow> RepositoryLoader" where
  "session s actions = foldl (\<lambda>s a. perform a s) s actions"

text \<open>The tags a source contributes: those of its package, none when it failed.\<close>

definition package_tags :: "manifest option \<Rightarrow> string set" where
  "package_tags r = (case r of None \<Rightarrow> {} | Some m \<Rightarrow> set (resolveTags m))"

subsection \<open>A batch of five sources\<close>

text \<open>
  The second source is unreachable and the fourth answers 404; the others answer with a
  manifest named after the URL that was requested, tagged \<open>t\<close> and with that URL.
\<close>

definition five_sources :: "string list" where
  "five_sources = [''https://github.com/o/a'', ''https://github.com/o/b.git'',
     ''https://raw.githubusercontent.com/o/c/main'', ''https://github.com/o/d'', ''e'']"

definition pkg_tagged :: "string \<Rightarrow> string list \<Rightarrow> manifest" where
  "pkg_tagged n ts = pkg_other\<lparr>name := Some n, keywords_field := Some ts\<rparr>"

definition five_net :: manifest_net where
  "five_net i url =
     (if i = 1 then NetworkError ''Failed to fetch''
      else if i = 3 then Response \<lparr>ok = False, status = 404, statusText = ''Not Found'',
                                  json = SyntaxError ''Unexpected token''\<rparr>
      else Response \<lparr>ok = True, status = 200, statusText = ''OK'',
                     json = Json (pkg_tagged url [''t'', url])\<rparr>)"

subsection \<open>The round trip through the URL in the words of the specification\<close>

text \<open>
  The effective filter outcome of a handler: the filtered list, or the exception. A tag
  survives the encoding when it is not empty, has no comma and no white space at its ends.
\<close>

definition filtered :: "RepositoryLoader outcome \<Rightarrow> error + manifest list" where
  "filtered r = (case r of Completed s \<Rightarrow> Inr (filteredPackages s) | Threw e s \<Rightarrow> Inl e)"

definition encodable_tag :: "string \<Rightarrow> bool" where
  "encodable_tag t = (t \<noteq> [] \<and> CHR '','' \<notin> set t \<and> trim t = t)"

text \<open>
  The state \<^verbatim>\<open>{query: "foo", tags: {"b","a"}}\<close>; a query typed with a trailing space;
  a selected tag that contains a comma.
\<close>

definition round_trip_state :: RepositoryLoader where
  "round_trip_state = filter_state\<lparr>selectedTags := [''b'', ''a''], searchInput := ''foo''\<rparr>"

definition padded_query_state :: RepositoryLoader where
  "padded_query_state = filter_state\<lparr>selectedTags := [], searchInput := ''kit ''\<rparr>"

definition comma_tag_state :: RepositoryLoader where
  "comma_tag_state = filter_state\<lparr>selectedTags := [''x,y''], searchInput := []\<rparr>"



section \<open>Verified properties\<close>

subsection \<open>Failed count fetches are not cached\<close>

text \<open>
  C10. When the URL is not cached and its fetch fails (transport error, non-success
  status or unparsable body), \<open>fetchDownloadCount\<close> returns 0 and changes nothing but the
  request log: no cache entry is made. The next call with the same URL therefore sends
  the request again, whatever the network answers then.
\<close>

theorem failed_fetch_not_cached:
  assumes miss: "cache c releaseUrl = None"
    and fails: "fetch_fails (api (length (requests c)) releaseUrl)"
  shows "fetchDownloadCount api releaseUrl c = (0, c\<lparr>requests := requests c @ [releaseUrl]\<rparr>)
       \<and> cache (snd (fetchDownloadCount api releaseUrl c)) = cache c
       \<and> requests (snd (fetchDownloadCount api releaseUrl (snd (fetchDownloadCount api releaseUrl c))))
           = requests c @ [releaseUrl, releaseUrl]"
proof -
  let ?c1 = "c\<lparr>requests := requests c @ [releaseUrl]\<rparr>"
  have first: "fetchDownloadCount api releaseUrl c = (0, ?c1)"
    using miss fails
    by (auto simp: fetchDownloadCount_def fetch_fails_def Let_def split: fetched.splits body.splits)
  have miss1: "cache ?c1 releaseUrl = None"
    using miss by simp
  have "requests (snd (fetchDownloadCount api releaseUrl ?c1)) = requests ?c1 @ [releaseUrl]"
    using miss1
    by (auto simp: fetchDownloadCount_def Let_def split: fetched.splits body.splits)
  with first show ?thesis by simp
qed

theorem failed_fetch_not_cached_witness:
  "fetchDownloadCount offline_api ''u'' constructor
     = (0, constructor\<lparr>requests := requests constructor @ [''u'']\<rparr>)
   \<and> cache (snd (fetchDownloadCount offline_api ''u'' constructor))
     = cache constructor
   \<and> requests (snd (fetchDownloadCount offline_api ''u''
        (snd (fetchDownloadCount offline_api ''u'' constructor))))
     = requests constructor @ [''u'', ''u'']"
  by (rule failed_fetch_not_cached) (simp_all add: constructor_def fetch_fails_def offline_api_def)

subsection \<open>The total of a release list\<close>

lemma add_asset_exact:
  "t + asset_count a < 2 ^ 53 \<Longrightarrow> add_asset t a = t + asset_count a"
  by (simp add: add_asset_def asset_count_def or_zero_def round64_def split: option.splits)

lemma foldl_add_asset:
  "t + sum_list (map asset_count as) < 2 ^ 53 \<Longrightarrow>
   foldl add_asset t as = t + sum_list (map asset_count as)"
proof (induction as arbitrary: t)
  case Nil
  then show ?case by simp
next
  case (Cons a as)
  from Cons.prems have step: "add_asset t a = t + asset_count a"
    by (intro add_asset_exact) simp
  from Cons.prems have "(t + asset_count a) + sum_list (map asset_count as) < 2 ^ 53"
    by (simp add: add.assoc)
  then have "foldl add_asset (t + asset_count a) as
      = (t + asset_count a) + sum_list (map asset_count as)"
    by (rule Cons.IH)
  with step show ?case by (simp add: add.assoc)
qed

lemma add_release_exact:
  "t + release_count r < 2 ^ 53 \<Longrightarrow> add_release t r = t + release_count r"
  by (simp add: add_release_def release_count_def foldl_add_asset split: option.splits)

lemma foldl_add_release:
  "t + sum_list (map release_count rs) < 2 ^ 53 \<Longrightarrow>
   foldl add_release t rs = t + sum_list (map release_count rs)"
proof (induction rs arbitrary: t)
  case Nil
  then show ?case by simp
next
  case (Cons r rs)
  from Cons.prems have step: "add_release t r = t + release_count r"
    by (intro add_release_exact) simp
  from Cons.prems have "(t + release_count r) + sum_list (map release_count rs) < 2 ^ 53"
    by (simp add: add.assoc)
  then have "foldl add_release (t + release_count r) rs
      = (t + release_count r) + sum_list (map release_count rs)"
    by (rule Cons.IH)
  with step show ?case by (simp add: add.assoc)
qed

lemma sumDownloads_spec: "spec_total releases < 2 ^ 53 \<Longrightarrow> sumDownloads releases = spec_total releases"
  using foldl_add_release [of 0 releases] by (simp add: sumDownloads_def spec_total_def)

text \<open>
  Beyond 53 bits the additions round: the counts \<open>2\<^sup>5\<^sup>3\<close> and 1 add up to \<open>2\<^sup>5\<^sup>3\<close>.
\<close>

lemma sumDownloads_rounds:
  "sumDownloads [\<lparr>assets = Some [\<lparr>download_count = Some 9007199254740992\<rparr>,
                                    \<lparr>download_count = Some 1\<rparr>]\<rparr>] = 9007199254740992"
  by code_simp

text \<open>
  C9. When the URL is not cached and the request is answered with a success status and
  a release list, \<open>fetchDownloadCount\<close> resolves to the sum of the \<^verbatim>\<open>download_count\<close>
  fields over all assets of all releases (\<open>spec_total\<close>: releases without an asset
  array and assets without the field count zero), and caches that sum, provided the sum
  is below \<open>2\<^sup>5\<^sup>3\<close>, where the additions of numbers are exact. The witness is
  the response \<^verbatim>\<open>[{assets:[{download_count:3},{download_count:2}]}, {assets:[]}]\<close>,
  which resolves to 5.
\<close>

theorem fetchDownloadCount_sums_assets:
  assumes miss: "cache c releaseUrl = None"
    and resp: "api (length (requests c)) releaseUrl = Response r"
    and ok: "ok r"
    and body: "json r = Json releases"
    and exact: "spec_total releases < 2 ^ 53"
  shows "fst (fetchDownloadCount api releaseUrl c) = spec_total releases
       \<and> cache (snd (fetchDownloadCount api releaseUrl c)) releaseUrl = Some (spec_total releases)"
  using assms by (simp add: fetchDownloadCount_def Let_def sumDownloads_spec)

theorem fetchDownloadCount_sums_assets_witness:
  "fst (fetchDownloadCount example_api ''u'' constructor) = 5"
proof -
  have total: "spec_total example_releases = 5"
    by (simp add: spec_total_def release_count_def asset_count_def example_releases_def)
  have "fst (fetchDownloadCount example_api ''u'' constructor) = spec_total example_releases"
    using fetchDownloadCount_sums_assets [of constructor "''u''" example_api
        "\<lparr>ok = True, status = 200, statusText = ''OK'', json = Json example_releases\<rparr>"
        example_releases]
    by (simp add: constructor_def example_api_def total)
  with total show ?thesis by simp
qed

subsection \<open>The cache\<close>

lemma cache_hit: "cache c u = Some v \<Longrightarrow> fetchDownloadCount api u c = (v, c)"
  by (simp add: fetchDownloadCount_def)

lemma cache_kept: "cache c u = Some v \<Longrightarrow> cache (snd (fetchDownloadCount api u' c)) u = Some v"
  by (auto simp: fetchDownloadCount_def Let_def split: option.splits fetched.splits body.splits)

lemma cache_kept_all: "cache c u = Some v \<Longrightarrow> cache (fetchAll api urls c) u = Some v"
  unfolding fetchAll_def
  by (induction urls arbitrary: c) (simp_all add: cache_kept)

lemma fetch_resolved:
  assumes "cache c u = None" "\<not> fetch_fails (api (length (requests c)) u)"
  shows "\<exists>v. fetchDownloadCount api u c
            = (v, c\<lparr>requests := requests c @ [u], cache := (cache c)(u \<mapsto> v)\<rparr>)"
  using assms
  by (auto simp: fetchDownloadCount_def fetch_fails_def Let_def split: fetched.splits body.splits)

text \<open>
  C5, as the code has it. The claim holds unless the first call is a cache miss whose
  fetch fails. In every other case the first call makes at most one request, the second
  call returns the same count without a request and without changing the counter, and
  so does a call made after any further awaited calls \<open>urls\<close> (for this or other URLs):
  \<open>fetchDownloadCount\<close> never removes or overwrites a cache entry. The count is a
  natural number. (\<open>clearCache\<close> would empty the cache; nothing in the repository calls it.)
\<close>

theorem cached_unless_fetch_failed:
  assumes resolved:
    "\<not> (cache c releaseUrl = None \<and> fetch_fails (api (length (requests c)) releaseUrl))"
  shows "length (requests (snd (fetchDownloadCount api releaseUrl c))) \<le> Suc (length (requests c))
       \<and> fetchDownloadCount api releaseUrl (snd (fetchDownloadCount api releaseUrl c))
           = (fst (fetchDownloadCount api releaseUrl c), snd (fetchDownloadCount api releaseUrl c))
       \<and> fetchDownloadCount api releaseUrl
            (fetchAll api urls (snd (fetchDownloadCount api releaseUrl c)))
           = (fst (fetchDownloadCount api releaseUrl c),
              fetchAll api urls (snd (fetchDownloadCount api releaseUrl c)))"
proof -
  obtain v c1 where first: "fetchDownloadCount api releaseUrl c = (v, c1)"
    by (cases "fetchDownloadCount api releaseUrl c")
  have "cache c1 releaseUrl = Some v \<and> length (requests c1) \<le> Suc (length (requests c))"
  proof (cases "cache c releaseUrl")
    case None
    with resolved fetch_resolved [of c releaseUrl api] first show ?thesis by auto
  next
    case (Some w)
    with cache_hit [of c releaseUrl w api] first show ?thesis by simp
  qed
  then have cached: "cache c1 releaseUrl = Some v"
    and len: "length (requests c1) \<le> Suc (length (requests c))"
    by simp_all
  have again: "fetchDownloadCount api releaseUrl c1 = (v, c1)"
    using cached by (rule cache_hit)
  have later: "fetchDownloadCount api releaseUrl (fetchAll api urls c1) = (v, fetchAll api urls c1)"
    using cache_kept_all [OF cached] by (rule cache_hit)
  show ?thesis using first len again later by simp
qed

theorem cached_unless_fetch_failed_witness:
  "length (requests (snd (fetchDownloadCount example_api ''u'' constructor)))
      \<le> Suc (length (requests constructor))
   \<and> fetchDownloadCount example_api ''u'' (snd (fetchDownloadCount example_api ''u'' constructor))
       = (fst (fetchDownloadCount example_api ''u'' constructor),
          snd (fetchDownloadCount example_api ''u'' constructor))
   \<and> fetchDownloadCount example_api ''u''
        (fetchAll example_api [''w''] (snd (fetchDownloadCount example_api ''u'' constructor)))
       = (fst (fetchDownloadCount example_api ''u'' constructor),
          fetchAll example_api [''w''] (snd (fetchDownloadCount example_api ''u'' constructor)))"
  by (rule cached_unless_fetch_failed) (simp add: constructor_def fetch_fails_def example_api_def)

text \<open>
  The claim as the specification states it fails when the first fetch fails: with an API
  whose first request is rejected and whose second succeeds, two calls with the same URL
  make two requests and return 0 and then 5.
\<close>

theorem second_call_refetches_counterexample:
  "fst (fetchDownloadCount flaky_api ''u'' constructor) = 0
   \<and> fst (fetchDownloadCount flaky_api ''u'' (snd (fetchDownloadCount flaky_api ''u'' constructor))) = 5
   \<and> requests (snd (fetchDownloadCount flaky_api ''u''
        (snd (fetchDownloadCount flaky_api ''u'' constructor)))) = [''u'', ''u'']"
  by (simp add: fetchDownloadCount_def flaky_api_def constructor_def Let_def sumDownloads_def
      add_release_def add_asset_def or_zero_def round64_def example_releases_def)

subsection \<open>Formatting a count\<close>

lemma toString_nonempty: "toString n \<noteq> []"
  by (subst toString.simps) simp

lemma toString_digit: "n < 10 \<Longrightarrow> toString n = [digit n]"
  by (subst toString.simps) simp

lemma toFixed1_one_decimal: "toFixed1 x = one_decimal (tenths x)"
proof (cases "tenths x < 10")
  case True
  then show ?thesis
    by (simp add: toFixed1_def one_decimal_def Let_def toString_digit digit_def)
next
  case False
  then have ts: "toString (tenths x) = toString (tenths x div 10) @ [digit (tenths x mod 10)]"
    by (subst toString.simps) simp
  have len: "\<not> length (toString (tenths x)) \<le> 1"
    using toString_nonempty [of "tenths x div 10"] by (simp add: ts)
  show ?thesis
    using len by (simp add: toFixed1_def one_decimal_def Let_def toString_digit) (simp add: ts)
qed

lemma roundTiesToEven_error:
  assumes "0 < b"
  shows "2 * (roundTiesToEven n b * b) \<le> 2 * n + b \<and> 2 * n \<le> 2 * (roundTiesToEven n b * b) + b"
proof -
  have n: "n = n div b * b + n mod b" by simp
  have r: "n mod b < b" using assms by simp
  define q where "q = n div b"
  define r where "r = n mod b"
  have n': "n = q * b + r" and r': "r < b" using n r by (simp_all add: q_def r_def)
  have "roundTiesToEven n b = q \<and> 2 * r \<le> b \<or> roundTiesToEven n b = q + 1 \<and> b \<le> 2 * r"
    by (auto simp: roundTiesToEven_def Let_def q_def r_def)
  then show ?thesis
    using n' r' by (auto simp: algebra_simps)
qed

lemma log2floor_le: "n < 2 ^ Suc j \<Longrightarrow> log2floor n \<le> j"
proof (induction j arbitrary: n)
  case 0
  then show ?case by (subst log2floor.simps) simp
next
  case (Suc j)
  show ?case
  proof (cases "n < 2")
    case True
    then show ?thesis by (subst log2floor.simps) simp
  next
    case False
    have "n div 2 < 2 ^ Suc j" using Suc.prems by simp
    then have "log2floor (n div 2) \<le> j" by (rule Suc.IH)
    with False show ?thesis by (subst log2floor.simps) simp
  qed
qed

lemma tenths_nearest_1000:
  fixes P m a n :: nat
  assumes P: "500 < P"
    and up: "2 * (m * 1000) \<le> 2 * (a * P) + 1000"
    and lo: "2 * (a * P) \<le> 2 * (m * 1000) + 1000"
    and n: "n = (20 * m + P) div (2 * P)"
  shows "100 * n \<le> a + 50 \<and> a \<le> 100 * n + 50"
proof -
  have P0: "0 < 2 * P" using P by simp
  have d1: "2 * P * n \<le> 20 * m + P"
    unfolding n by simp
  have d2: "20 * m + P < 2 * P * n + 2 * P"
    unfolding n using P0 dividend_less_times_div [of "2 * P" "20 * m + P"] by (simp add: algebra_simps)
  have "P * (2000 * n) < P * (20 * a + 1020)"
    using d1 up P by (simp add: algebra_simps)
  then have u: "2000 * n < 20 * a + 1020" by simp
  have "P * (20 * a) < P * (2000 * n + 1020)"
    using d2 lo P by (simp add: algebra_simps)
  then have l: "20 * a < 2000 * n + 1020" by simp
  from u l show ?thesis by arith
qed


lemma tenths_nearest_1000000:
  fixes P m a n :: nat
  assumes P: "500000 < P"
    and up: "2 * (m * 1000000) \<le> 2 * (a * P) + 1000000"
    and lo: "2 * (a * P) \<le> 2 * (m * 1000000) + 1000000"
    and n: "n = (20 * m + P) div (2 * P)"
  shows "100000 * n \<le> a + 50000 \<and> a \<le> 100000 * n + 50000"
proof -
  have P0: "0 < 2 * P" using P by simp
  have d1: "2 * P * n \<le> 20 * m + P"
    unfolding n by simp
  have d2: "20 * m + P < 2 * P * n + 2 * P"
    unfolding n using P0 dividend_less_times_div [of "2 * P" "20 * m + P"] by (simp add: algebra_simps)
  have "P * (2000000 * n) < P * (20 * a + 1000020)"
    using d1 up P by (simp add: algebra_simps)
  then have u: "2000000 * n < 20 * a + 1000020" by simp
  have "P * (20 * a) < P * (2000000 * n + 1000020)"
    using d2 lo P by (simp add: algebra_simps)
  then have l: "20 * a < 2000000 * n + 1000020" by simp
  from u l show ?thesis by arith
qed

lemma scale_divide: "scale (divide a b) = 52 - log2floor (a div b)"
  by (simp add: divide_def Let_def)

lemma significand_divide:
  "significand (divide a b) = roundTiesToEven (a * 2 ^ scale (divide a b)) b"
  by (simp add: divide_def Let_def)

lemma tenths_divide_1000:
  assumes "count < 1000000"
  shows "nearest_tenth (tenths (divide count 1000)) count 1000"
proof -
  let ?x = "divide count 1000"
  have "count div 1000 < 2 ^ Suc 9" using assms by simp
  then have "log2floor (count div 1000) \<le> 9" by (rule log2floor_le)
  then have "9 \<le> scale ?x" by (simp add: scale_divide)
  then have "(2::nat) ^ 9 \<le> 2 ^ scale ?x" by (rule power_increasing) simp
  then have P: "500 < (2::nat) ^ scale ?x" by simp
  have err: "2 * (significand ?x * 1000) \<le> 2 * (count * 2 ^ scale ?x) + 1000
      \<and> 2 * (count * 2 ^ scale ?x) \<le> 2 * (significand ?x * 1000) + 1000"
    unfolding significand_divide by (rule roundTiesToEven_error) simp
  have "100 * tenths ?x \<le> count + 50 \<and> count \<le> 100 * tenths ?x + 50"
    using P err by (intro tenths_nearest_1000 [where P = "2 ^ scale ?x" and m = "significand ?x"])
      (simp_all add: tenths_def)
  then show ?thesis by (simp add: nearest_tenth_def)
qed

lemma tenths_divide_1000000:
  assumes "count < 2 ^ 53"
  shows "nearest_tenth (tenths (divide count 1000000)) count 1000000"
proof -
  let ?x = "divide count 1000000"
  have "count div 1000000 < 2 ^ Suc 33" using assms by simp
  then have "log2floor (count div 1000000) \<le> 33" by (rule log2floor_le)
  then have "19 \<le> scale ?x" by (simp add: scale_divide)
  then have "(2::nat) ^ 19 \<le> 2 ^ scale ?x" by (rule power_increasing) simp
  then have P: "500000 < (2::nat) ^ scale ?x" by simp
  have err: "2 * (significand ?x * 1000000) \<le> 2 * (count * 2 ^ scale ?x) + 1000000
      \<and> 2 * (count * 2 ^ scale ?x) \<le> 2 * (significand ?x * 1000000) + 1000000"
    unfolding significand_divide by (rule roundTiesToEven_error) simp
  have "100000 * tenths ?x \<le> count + 50000 \<and> count \<le> 100000 * tenths ?x + 50000"
    using P err by (intro tenths_nearest_1000000 [where P = "2 ^ scale ?x" and m = "significand ?x"])
      (simp_all add: tenths_def)
  then show ?thesis by (simp add: nearest_tenth_def)
qed

text \<open>
  C8. For every count in the range of exactly representable integers (below \<open>2\<^sup>5\<^sup>3\<close>):
  below 1000 \<open>formatCount\<close> returns the integer's digits; from 1000 up to 999999 it
  returns \<open>count / 1000\<close> rounded to one decimal, followed by \<open>K\<close>; from 1000000 on it
  returns \<open>count / 1000000\<close> rounded to one decimal, followed by \<open>M\<close>. Rounded to one
  decimal means a multiple \<open>n / 10\<close> of one tenth at distance at most \<open>1/20\<close> from the
  quotient. In particular 950 gives \<open>950\<close>, 1500 gives \<open>1.5K\<close>, 2300000 gives \<open>2.3M\<close>.
\<close>

theorem formatCount_rounds:
  assumes safe: "count < 2 ^ 53"
  shows "(count < 1000 \<longrightarrow> formatCount count = toString count)
       \<and> (1000 \<le> count \<and> count < 1000000 \<longrightarrow>
            (\<exists>n. formatCount count = one_decimal n @ ''K'' \<and> nearest_tenth n count 1000))
       \<and> (1000000 \<le> count \<longrightarrow>
            (\<exists>n. formatCount count = one_decimal n @ ''M'' \<and> nearest_tenth n count 1000000))
       \<and> formatCount 950 = ''950'' \<and> formatCount 1500 = ''1.5K''
       \<and> formatCount 2300000 = ''2.3M''"
proof -
  have small: "count < 1000 \<longrightarrow> formatCount count = toString count"
    by (simp add: formatCount_def)
  have kilo: "1000 \<le> count \<and> count < 1000000 \<longrightarrow>
      (\<exists>n. formatCount count = one_decimal n @ ''K'' \<and> nearest_tenth n count 1000)"
  proof
    assume r: "1000 \<le> count \<and> count < 1000000"
    then have "formatCount count = one_decimal (tenths (divide count 1000)) @ ''K''"
      by (simp add: formatCount_def toFixed1_one_decimal)
    moreover have "nearest_tenth (tenths (divide count 1000)) count 1000"
      using r by (simp add: tenths_divide_1000)
    ultimately show "\<exists>n. formatCount count = one_decimal n @ ''K'' \<and> nearest_tenth n count 1000"
      by blast
  qed
  have mega: "1000000 \<le> count \<longrightarrow>
      (\<exists>n. formatCount count = one_decimal n @ ''M'' \<and> nearest_tenth n count 1000000)"
  proof
    assume r: "1000000 \<le> count"
    then have "formatCount count = one_decimal (tenths (divide count 1000000)) @ ''M''"
      by (simp add: formatCount_def toFixed1_one_decimal)
    moreover have "nearest_tenth (tenths (divide count 1000000)) count 1000000"
      using safe by (rule tenths_divide_1000000)
    ultimately show "\<exists>n. formatCount count = one_decimal n @ ''M'' \<and> nearest_tenth n count 1000000"
      by blast
  qed
  have e1: "formatCount 950 = ''950''" by code_simp
  have e2: "formatCount 1500 = ''1.5K''" by code_simp
  have e3: "formatCount 2300000 = ''2.3M''" by code_simp
  from small kilo mega e1 e2 e3 show ?thesis by blast
qed

theorem formatCount_rounds_witness:
  "formatCount 999 = toString 999
   \<and> (\<exists>n. formatCount 1500 = one_decimal n @ ''K'' \<and> nearest_tenth n 1500 1000)
   \<and> (\<exists>n. formatCount 2300000 = one_decimal n @ ''M'' \<and> nearest_tenth n 2300000 1000000)"
proof -
  have s1: "(999::nat) < 2 ^ 53" and r1: "(999::nat) < 1000" by simp_all
  have s2: "(1500::nat) < 2 ^ 53" and r2: "1000 \<le> (1500::nat) \<and> (1500::nat) < 1000000"
    by simp_all
  have s3: "(2300000::nat) < 2 ^ 53" and r3: "1000000 \<le> (2300000::nat)" by simp_all
  from formatCount_rounds [OF s1] r1 have "formatCount 999 = toString 999" by blast
  moreover from formatCount_rounds [OF s2] r2
  have "\<exists>n. formatCount 1500 = one_decimal n @ ''K'' \<and> nearest_tenth n 1500 1000" by blast
  moreover from formatCount_rounds [OF s3] r3
  have "\<exists>n. formatCount 2300000 = one_decimal n @ ''M'' \<and> nearest_tenth n 2300000 1000000"
    by blast
  ultimately show ?thesis by blast
qed

text \<open>
  Where the quotient lies exactly between two tenths, the binary quotient decides the
  direction: 1.45 is stored slightly below, 1.25 exactly.
\<close>

lemma formatCount_at_ties: "formatCount 1450 = ''1.4K'' \<and> formatCount 1250 = ''1.3K''"
  by code_simp

subsection \<open>Direct links\<close>

lemma filterE_total: "(\<And>x. x \<in> set xs \<Longrightarrow> f x = Inr (p x)) \<Longrightarrow> filterE f xs = Inr (filter p xs)"
  by (induction xs) simp_all

lemma filter_key_unique: "distinct (map f xs) \<Longrightarrow> length (filter (\<lambda>x. f x = v) xs) \<le> 1"
proof (induction xs)
  case Nil
  then show ?case by simp
next
  case (Cons x xs)
  show ?case
  proof (cases "f x = v")
    case True
    with Cons.prems have "\<forall>y\<in>set xs. f y \<noteq> v" by (auto simp: image_iff)
    then have "filter (\<lambda>x. f x = v) xs = []" by (simp add: filter_empty_conv)
    with True show ?thesis by simp
  next
    case False
    with Cons show ?thesis by simp
  qed
qed

text \<open>
  C6, as the code has it. When the fragment is not empty and there are no query
  parameters, and every loaded package has a name, \<open>loadFromURL\<close> clears the search
  text and the selected tags and sets the filtered list to exactly the packages whose
  slug equals the fragment, in their order; the query and the tags play no part. The
  list has at most one element when the slugs of the loaded packages are pairwise
  distinct.
\<close>

theorem fragment_only_link:
  assumes hash: "urlHash s \<noteq> []"
    and noparams: "urlParams s = []"
    and named: "\<forall>pkg \<in> set (packages s). name pkg \<noteq> None"
  shows "loadFromURL s
           = Completed (s\<lparr>selectedTags := [], searchInput := [],
                          filteredPackages := filter (\<lambda>pkg. slug pkg = Some (urlHash s)) (packages s)\<rparr>)
       \<and> (distinct (map slug (packages s)) \<longrightarrow>
            length (filter (\<lambda>pkg. slug pkg = Some (urlHash s)) (packages s)) \<le> 1)"
proof -
  have "filterE (\<lambda>pkg. case name pkg of None \<Rightarrow> Inl TypeError
                       | Some n \<Rightarrow> Inr (cardId n = urlHash s)) (packages s)
        = Inr (filter (\<lambda>pkg. slug pkg = Some (urlHash s)) (packages s))"
    using named by (intro filterE_total) (auto simp: slug_def)
  then have "loadFromURL s
           = Completed (s\<lparr>selectedTags := [], searchInput := [],
                          filteredPackages := filter (\<lambda>pkg. slug pkg = Some (urlHash s)) (packages s)\<rparr>)"
    using hash noparams by (simp add: loadFromURL_def Let_def)
  moreover have "distinct (map slug (packages s)) \<longrightarrow>
      length (filter (\<lambda>pkg. slug pkg = Some (urlHash s)) (packages s)) \<le> 1"
    using filter_key_unique [of slug "packages s" "Some (urlHash s)"] by blast
  ultimately show ?thesis by blast
qed

lemma slug_my_package_1: "slug pkg_my_package_1 = Some ''my-package-1''"
  by code_simp
lemma slug_other: "slug pkg_other = Some ''other''"
  by code_simp
lemma slug_my_package: "slug pkg_my_package = Some ''my-package-1''"
  by code_simp

theorem fragment_only_link_witness:
  "filteredPackages (state_of (loadFromURL direct_link_state)) = [pkg_my_package_1]"
proof -
  have h: "urlHash direct_link_state \<noteq> []" and p: "urlParams direct_link_state = []"
    and n: "\<forall>pkg \<in> set (packages direct_link_state). name pkg \<noteq> None"
    by (simp_all add: direct_link_state_def newLoader_def pkg_other_def pkg_my_package_1_def)
  from fragment_only_link [OF h p n]
  have "filteredPackages (state_of (loadFromURL direct_link_state))
      = filter (\<lambda>pkg. slug pkg = Some (urlHash direct_link_state)) (packages direct_link_state)"
    by (simp add: state_of_def)
  also have "\<dots> = [pkg_my_package_1]"
    by (simp add: direct_link_state_def newLoader_def slug_my_package_1 slug_other)
  finally show ?thesis .
qed

text \<open>
  Nothing makes slugs unique: with the packages \<open>my-package-1\<close> and \<open>My Package 1\<close>
  loaded, the link \<^verbatim>\<open>#my-package-1\<close> selects both.
\<close>

theorem fragment_link_two_results_counterexample:
  "filteredPackages (state_of (loadFromURL clashing_state)) = [pkg_my_package, pkg_my_package_1]"
  by code_simp

subsection \<open>The filter\<close>

lemma toLowerCase_empty [simp]: "toLowerCase q = [] \<longleftrightarrow> q = []"
  by (simp add: toLowerCase_def)

lemma toLowerCase_Nil [simp]: "toLowerCase [] = []"
  by (simp add: toLowerCase_def)






lemma ci_occurs_in_empty: "ci_occurs q [] \<longleftrightarrow> q = []"
  by simp




text \<open>
  On a package that has an author, the filter with the fields of the manifest is the
  filter the specification states.
\<close>

lemma included_as_specified:
  assumes "is_package pkg" "author pkg \<noteq> None"
  shows "included q selected pkg = spec_included q selected pkg"
  using assms
  by (auto simp: included_def spec_included_def ci_substring_def author_text_def
      spec_author_def spec_displayName_def is_package_def truthy_def
      split: option.splits author_field.splits)




subsection \<open>Loading a batch of manifests\<close>

lemma set_add_all: "set (foldl (\<lambda>acc tag. set_add tag acc) xs ts) = set xs \<union> set ts"
  by (induction ts arbitrary: xs) (auto simp: set_add_def)

lemma loadManifest_value:
  "fst (loadManifest fetch repoUrl s) = loaded (fetch (convertToRawUrl repoUrl @ ''/package.json''))"
  by (simp add: loadManifest_def loaded_def Let_def split: fetched.splits body.splits)

lemma loadManifest_allTags:
  "set (allTags (snd (loadManifest fetch repoUrl s)))
     = set (allTags s) \<union> package_tags (loaded (fetch (convertToRawUrl repoUrl @ ''/package.json'')))"
  by (auto simp: loadManifest_def loaded_def Let_def showError_def package_tags_def manifestTags_def
      resolveTags_def set_add_all split: fetched.splits body.splits option.splits)

lemma settle_step:
  assumes "i < length repositories" "length results = length repositories" "results ! i = None"
  shows "settle net repositories (results, s) i
       = (results[i := Some (source_package net repositories i)],
          snd (loadManifest (net i) (repositories ! i) s))"
  using assms loadManifest_value [of "net i" "repositories ! i" s]
  by (simp add: settle_def source_package_def split_beta)

lemma fold_settle:
  assumes "distinct order" "set order \<subseteq> {0..<length repositories}"
  shows "\<exists>results s'.
           foldl (settle net repositories) (replicate (length repositories) None, s) order = (results, s')
         \<and> length results = length repositories
         \<and> (\<forall>i < length repositories.
               results ! i = (if i \<in> set order then Some (source_package net repositories i) else None))
         \<and> set (allTags s') = set (allTags s) \<union> (\<Union>i \<in> set order. package_tags (source_package net repositories i))"
  using assms
proof (induction order rule: rev_induct)
  case Nil
  then show ?case by simp
next
  case (snoc i order)
  then obtain results s' where
    run: "foldl (settle net repositories) (replicate (length repositories) None, s) order = (results, s')"
    and len: "length results = length repositories"
    and res: "\<forall>j < length repositories.
               results ! j = (if j \<in> set order then Some (source_package net repositories j) else None)"
    and tgs: "set (allTags s') = set (allTags s) \<union> (\<Union>j \<in> set order. package_tags (source_package net repositories j))"
    by auto
  have i: "i < length repositories" and fresh: "i \<notin> set order"
    using snoc.prems by auto
  have pending: "results ! i = None" using res i fresh by simp
  let ?s2 = "snd (loadManifest (net i) (repositories ! i) s')"
  have step: "foldl (settle net repositories) (replicate (length repositories) None, s) (order @ [i])
      = (results[i := Some (source_package net repositories i)], ?s2)"
    using run settle_step [OF i len pending] by simp
  have tags2: "set (allTags ?s2) = set (allTags s')
      \<union> package_tags (source_package net repositories i)"
    by (simp add: loadManifest_allTags source_package_def)
  have "\<forall>j < length repositories.
      (results[i := Some (source_package net repositories i)]) ! j
        = (if j \<in> set (order @ [i]) then Some (source_package net repositories j) else None)"
    using res len i by (auto simp: nth_list_update)
  moreover have "set (allTags ?s2) = set (allTags s)
      \<union> (\<Union>j \<in> set (order @ [i]). package_tags (source_package net repositories j))"
    using tags2 tgs by auto
  ultimately show ?case using step len by simp
qed

lemma map_filter_fulfilled:
  "List.map_filter (\<lambda>r. case r of Some (Some m) \<Rightarrow> Some m | _ \<Rightarrow> None) (map (\<lambda>i. Some (f i)) xs)
     = List.map_filter f xs"
  by (induction xs) (auto simp: List.map_filter_simps split: option.splits)

lemma loadManifests_complete:
  assumes "completion_order order (length repositories)"
  shows "packages (loadManifests net repositories order s) = successful_packages net repositories
       \<and> set (allTags (loadManifests net repositories order s))
           = set (allTags s) \<union> (\<Union>i \<in> {0..<length repositories}. package_tags (source_package net repositories i))"
proof -
  from assms have d: "distinct order" and o: "set order = {0..<length repositories}"
    by (simp_all add: completion_order_def)
  from fold_settle [of order repositories net s] d o obtain results s' where
    run: "foldl (settle net repositories) (replicate (length repositories) None, s) order = (results, s')"
    and len: "length results = length repositories"
    and res: "\<forall>i < length repositories. results ! i = Some (source_package net repositories i)"
    and tgs: "set (allTags s') = set (allTags s) \<union> (\<Union>i \<in> {0..<length repositories}. package_tags (source_package net repositories i))"
    by auto
  have "results = map (\<lambda>i. Some (source_package net repositories i)) [0..<length repositories]"
    using len res by (intro nth_equalityI) simp_all
  then show ?thesis
    using run tgs by (simp add: loadManifests_def successful_packages_def map_filter_fulfilled)
qed


text \<open>
  C1. For every list of sources, every network and every order in which the promises
  complete (each exactly once), \<open>loadManifests\<close> returns and leaves in \<open>packages\<close>
  exactly the manifests of the sources whose fetch succeeded with a success status and
  a body that parsed, in the order of the source list. The package of a source depends
  on the answer to that source's request only; a failed source contributes nothing and
  the result does not depend on the completion order. The witness has five sources of
  which the second and the fourth fail, completing in the order 5, 3, 1, 4, 2.
\<close>

theorem loadManifests_source_order:
  assumes "completion_order order (length repositories)"
  shows "packages (loadManifests net repositories order s) = successful_packages net repositories"
  using loadManifests_complete [OF assms] by simp

lemma five_successful:
  "successful_packages five_net five_sources
     = [pkg_tagged ''https://raw.githubusercontent.com/o/a/main/package.json''
          [''t'', ''https://raw.githubusercontent.com/o/a/main/package.json''],
        pkg_tagged ''https://raw.githubusercontent.com/o/c/main/package.json''
          [''t'', ''https://raw.githubusercontent.com/o/c/main/package.json''],
        pkg_tagged ''e/package.json'' [''t'', ''e/package.json'']]"
  by code_simp

theorem loadManifests_source_order_witness:
  "packages (loadManifests five_net five_sources [4, 2, 0, 3, 1] (newLoader [] []))
     = [pkg_tagged ''https://raw.githubusercontent.com/o/a/main/package.json''
          [''t'', ''https://raw.githubusercontent.com/o/a/main/package.json''],
        pkg_tagged ''https://raw.githubusercontent.com/o/c/main/package.json''
          [''t'', ''https://raw.githubusercontent.com/o/c/main/package.json''],
        pkg_tagged ''e/package.json'' [''t'', ''e/package.json'']]"
proof -
  have o: "completion_order [4, 2, 0, 3, 1] (length five_sources)"
    by code_simp
  show ?thesis
    unfolding loadManifests_source_order [OF o] by (rule five_successful)
qed


subsection \<open>The tag index\<close>

lemma successful_tags:
  "(\<Union>i \<in> {0..<length repositories}. package_tags (source_package net repositories i))
     = (\<Union>pkg \<in> set (successful_packages net repositories). set (resolveTags pkg))"
  by (auto simp: successful_packages_def List.map_filter_def package_tags_def split: option.splits)

lemma settle_allTags:
  "set (allTags (snd st)) \<subseteq> set (allTags (snd (settle net repositories st i)))"
  using loadManifest_allTags [of "net i" "repositories ! i" "snd st"]
  by (auto simp: settle_def split_beta Let_def)

lemma fold_settle_allTags:
  "set (allTags (snd st)) \<subseteq> set (allTags (snd (foldl (settle net repositories) st order)))"
proof (induction order arbitrary: st)
  case Nil
  then show ?case by simp
next
  case (Cons i order)
  have "set (allTags (snd st)) \<subseteq> set (allTags (snd (settle net repositories st i)))"
    by (rule settle_allTags)
  also have "\<dots> \<subseteq> set (allTags (snd (foldl (settle net repositories) (settle net repositories st i) order)))"
    by (rule Cons.IH)
  finally show ?case by simp
qed

lemma loadManifests_allTags_mono:
  "set (allTags s) \<subseteq> set (allTags (loadManifests net repositories order s))"
  using fold_settle_allTags [of "(replicate (length repositories) None, s)" net repositories order]
  by (simp add: loadManifests_def split_beta)

lemma applyFilters_allTags [simp]: "allTags (state_of (applyFilters s)) = allTags s"
  by (simp add: applyFilters_def state_of_def Let_def split: sum.splits)

lemma updateURL_allTags [simp]: "allTags (updateURL s) = allTags s"
  by (simp add: updateURL_def Let_def)

lemma loadFromURL_allTags [simp]: "allTags (state_of (loadFromURL s)) = allTags s"
  by (simp add: loadFromURL_def state_of_def Let_def applyFilters_def
      split: sum.splits option.splits)

lemma perform_allTags: "set (allTags s) \<subseteq> set (allTags (perform a s))"
  by (cases a)
     (simp_all add: perform_def loadManifests_allTags_mono handleSearch_def toggleTag_def
       clearFilters_def Let_def)

lemma session_allTags: "set (allTags s) \<subseteq> set (allTags (session s actions))"
  unfolding session_def
proof (induction actions arbitrary: s)
  case Nil
  then show ?case by simp
next
  case (Cons a actions)
  have "set (allTags s) \<subseteq> set (allTags (perform a s))" by (rule perform_allTags)
  also have "\<dots> \<subseteq> set (allTags (foldl (\<lambda>s a. perform a s) (perform a s) actions))"
    by (rule Cons.IH)
  finally show ?case by simp
qed

text \<open>
  C7. After a batch in which every promise completed, \<open>allTags\<close> holds what it held
  before (nothing, for a new loader) and exactly the tags of the packages that loaded:
  nothing from a source that failed. During a session, whatever the handlers do and
  whether they throw, no tag leaves \<open>allTags\<close>. The list built for the filter panel is
  \<open>allTags\<close> sorted in the lexicographic order of character codes.
\<close>

theorem allTags_union_of_loaded:
  "(completion_order order (length repositories) \<longrightarrow>
      set (allTags (loadManifests net repositories order s))
        = set (allTags s) \<union> (\<Union>pkg \<in> set (successful_packages net repositories). set (resolveTags pkg)))
   \<and> set (allTags s) \<subseteq> set (allTags (session s actions))
   \<and> sorted (buildTagsList s) \<and> set (buildTagsList s) = set (allTags s)
   \<and> length (buildTagsList s) = length (allTags s)"
proof -
  have "completion_order order (length repositories) \<longrightarrow>
      set (allTags (loadManifests net repositories order s))
        = set (allTags s) \<union> (\<Union>pkg \<in> set (successful_packages net repositories). set (resolveTags pkg))"
    using loadManifests_complete [of order repositories net s] by (simp add: successful_tags)
  moreover have "set (allTags s) \<subseteq> set (allTags (session s actions))"
    by (rule session_allTags)
  moreover have "sorted (buildTagsList s) \<and> set (buildTagsList s) = set (allTags s)
      \<and> length (buildTagsList s) = length (allTags s)"
    by (simp add: buildTagsList_def)
  ultimately show ?thesis by blast
qed

theorem allTags_union_of_loaded_witness:
  "set (allTags (loadManifests five_net five_sources [4, 2, 0, 3, 1] (newLoader [] [])))
     = {''t'', ''https://raw.githubusercontent.com/o/a/main/package.json'',
        ''https://raw.githubusercontent.com/o/c/main/package.json'', ''e/package.json''}
   \<and> buildTagsList (loadManifests five_net five_sources [4, 2, 0, 3, 1] (newLoader [] []))
     = [''e/package.json'', ''https://raw.githubusercontent.com/o/a/main/package.json'',
        ''https://raw.githubusercontent.com/o/c/main/package.json'', ''t'']"
proof -
  have o: "completion_order [4, 2, 0, 3, 1] (length five_sources)"
    by code_simp
  have "set (allTags (loadManifests five_net five_sources [4, 2, 0, 3, 1] (newLoader [] [])))
      = set (allTags (newLoader [] []))
        \<union> (\<Union>pkg \<in> set (successful_packages five_net five_sources). set (resolveTags pkg))"
    using allTags_union_of_loaded [of "[4, 2, 0, 3, 1]" five_sources five_net "newLoader [] []"] o
    by blast
  also have "\<dots> = {''t'', ''https://raw.githubusercontent.com/o/a/main/package.json'',
        ''https://raw.githubusercontent.com/o/c/main/package.json'', ''e/package.json''}"
    unfolding five_successful
    by (auto simp: newLoader_def pkg_tagged_def pkg_other_def resolveTags_def)
  finally have a: "set (allTags (loadManifests five_net five_sources [4, 2, 0, 3, 1] (newLoader [] [])))
     = {''t'', ''https://raw.githubusercontent.com/o/a/main/package.json'',
        ''https://raw.githubusercontent.com/o/c/main/package.json'', ''e/package.json''}" .
  have b: "buildTagsList (loadManifests five_net five_sources [4, 2, 0, 3, 1] (newLoader [] []))
     = [''e/package.json'', ''https://raw.githubusercontent.com/o/a/main/package.json'',
        ''https://raw.githubusercontent.com/o/c/main/package.json'', ''t'']"
    by code_simp
  from a b show ?thesis by blast
qed

subsection \<open>The state in the URL\<close>

lemma split_comma_nonempty: "split_comma s \<noteq> []"
  by (induction s) (auto split: list.splits)

lemma split_comma_free: "CHR '','' \<notin> set x \<Longrightarrow> split_comma x = [x]"
  by (induction x) (auto split: list.splits)

lemma split_comma_append:
  "CHR '','' \<notin> set x \<Longrightarrow> split_comma (x @ CHR '','' # rest) = x # split_comma rest"
  by (induction x) (auto split: list.splits simp: split_comma_nonempty)

lemma split_join:
  "xs \<noteq> [] \<Longrightarrow> \<forall>x \<in> set xs. CHR '','' \<notin> set x \<Longrightarrow> split_comma (join_comma xs) = xs"
proof (induction xs rule: join_comma.induct)
  case 1
  then show ?case by simp
next
  case (2 x)
  then show ?case by (simp add: split_comma_free)
next
  case (3 x y ys)
  then show ?case by (simp add: split_comma_append)
qed

lemma join_nonempty: "xs \<noteq> [] \<Longrightarrow> \<forall>x \<in> set xs. x \<noteq> [] \<Longrightarrow> join_comma xs \<noteq> []"
  by (induction xs rule: join_comma.induct) simp_all

lemma add_known_tags:
  "set ts \<subseteq> set known \<Longrightarrow>
   set (foldl (\<lambda>sel tag. if tag \<in> set known then set_add tag sel else sel) acc ts) = set acc \<union> set ts"
  by (induction ts arbitrary: acc) (auto simp: set_add_def)

lemma matchesTags_cong: "set sel' = set sel \<Longrightarrow> matchesTags sel' pkg = matchesTags sel pkg"
  by (auto simp: matchesTags_def)

lemma filterCallback_cong:
  "set sel' = set sel \<Longrightarrow> filterCallback q sel' = filterCallback q sel"
  by (rule ext) (auto simp: filterCallback_def matchesTags_cong [of sel' sel] split: sum.splits)

lemma filterE_all: "filterE (filterCallback [] []) pkgs = Inr pkgs"
  by (induction pkgs) (simp_all add: filterCallback_def matchesSearch_def matchesTags_def)

lemma filtered_applyFilters:
  "filtered (applyFilters s)
     = filterE (filterCallback (toLowerCase (searchInput s)) (selectedTags s)) (packages s)"
  by (simp add: applyFilters_def filtered_def Let_def split: sum.splits)


lemma params_get_simps:
  "params_get [] k = None"
  "params_get ((k', v) # ps) k = (if k' = k then Some v else params_get ps k)"
  by (simp_all add: params_get_def)

text \<open>
  C2, as the code has it. For every state whose search text has no white space at its
  ends and whose selected tags are tags of \<open>allTags\<close> that are non-empty, without comma
  and without white space at their ends, \<open>updateURL\<close> followed by \<open>loadFromURL\<close> restores
  the search text, restores the membership of the selected tags whatever their
  insertion order was, and produces the filter outcome that \<open>applyFilters\<close> produces on
  the state directly.
\<close>

theorem url_round_trip:
  assumes q: "trim (searchInput s) = searchInput s"
    and tags: "\<forall>t \<in> set (selectedTags s). t \<in> set (allTags s) \<and> encodable_tag t"
  shows "searchInput (state_of (loadFromURL (updateURL s))) = searchInput s
       \<and> set (selectedTags (state_of (loadFromURL (updateURL s)))) = set (selectedTags s)
       \<and> filtered (loadFromURL (updateURL s)) = filtered (applyFilters s)"
proof -
  let ?q = "searchInput s" and ?sel = "selectedTags s"
  let ?J = "join_comma (sort ?sel)"
  let ?params = "(if ?q \<noteq> [] then [(''search'', ?q)] else [])
                 @ (if ?sel \<noteq> [] then [(''tags'', ?J)] else [])"
  have enc: "updateURL s = s\<lparr>urlParams := ?params, urlHash := []\<rparr>"
    using q by (simp add: updateURL_def Let_def)
  have sorted_tags: "\<forall>t \<in> set (sort ?sel). CHR '','' \<notin> set t"
    and sorted_ne: "\<forall>t \<in> set (sort ?sel). t \<noteq> []"
    and sorted_trim: "\<forall>t \<in> set (sort ?sel). trim t = t"
    and known: "set (sort ?sel) \<subseteq> set (allTags s)"
    using tags by (auto simp: encodable_tag_def)
  have J: "?sel \<noteq> [] \<Longrightarrow> ?J \<noteq> []"
    using join_nonempty [of "sort ?sel"] sorted_ne by (metis length_0_conv length_sort)
  have pieces: "?sel \<noteq> [] \<Longrightarrow> filter (\<lambda>t. t \<noteq> []) (map trim (split_comma ?J)) = sort ?sel"
  proof -
    assume ne: "?sel \<noteq> []"
    then have "sort ?sel \<noteq> []" by (metis length_0_conv length_sort)
    then have "split_comma ?J = sort ?sel" using sorted_tags by (rule split_join)
    moreover have "map trim (sort ?sel) = sort ?sel"
      using sorted_trim by (intro map_idI) simp
    moreover have "filter (\<lambda>t. t \<noteq> []) (sort ?sel) = sort ?sel"
      using sorted_ne by (simp add: filter_id_conv)
    ultimately show ?thesis by simp
  qed
  let ?sel' = "foldl (\<lambda>sel tag. if tag \<in> set (allTags s) then set_add tag sel else sel) [] (sort ?sel)"
  have sel': "set ?sel' = set ?sel"
    using add_known_tags [OF known, of "[]"] by simp
  let ?s2 = "s\<lparr>urlParams := ?params, urlHash := [], selectedTags := ?sel', searchInput := ?q\<rparr>"
  have dec: "loadFromURL (updateURL s)
      = (if ?q \<noteq> [] \<or> ?sel \<noteq> [] then applyFilters ?s2
         else Completed (?s2\<lparr>filteredPackages := packages s\<rparr>))"
  proof (cases "?sel = []")
    case True
    then show ?thesis
      by (cases "?q = []")
         (simp_all add: enc loadFromURL_def Let_def params_get_simps js_or_def truthy_def)
  next
    case False
    with J pieces have "?J \<noteq> []"
      and "filter (\<lambda>t. t \<noteq> []) (map trim (split_comma ?J)) = sort ?sel" by simp_all
    with False show ?thesis
      by (cases "?q = []")
         (auto simp add: enc loadFromURL_def Let_def params_get_simps js_or_def truthy_def
           intro!: arg_cong [where f = applyFilters] RepositoryLoader.equality)
  qed
  have cb: "filterCallback (toLowerCase ?q) ?sel' = filterCallback (toLowerCase ?q) ?sel"
    using sel' by (rule filterCallback_cong)
  show ?thesis
  proof (cases "?q \<noteq> [] \<or> ?sel \<noteq> []")
    case True
    then have d: "loadFromURL (updateURL s) = applyFilters ?s2" using dec by simp
    have "filtered (applyFilters ?s2) = filtered (applyFilters s)"
      by (simp add: filtered_applyFilters cb)
    moreover have "searchInput (state_of (applyFilters ?s2)) = ?q"
      and "selectedTags (state_of (applyFilters ?s2)) = ?sel'"
      by (simp_all add: applyFilters_def state_of_def Let_def split: sum.splits)
    ultimately show ?thesis using d sel' by simp
  next
    case False
    then have d: "loadFromURL (updateURL s) = Completed (?s2\<lparr>filteredPackages := packages s\<rparr>)"
      using dec by simp
    from False have "filtered (applyFilters s) = Inr (packages s)"
      by (simp add: filtered_applyFilters filterE_all)
    then show ?thesis using d False by (simp add: filtered_def state_of_def)
  qed
qed


theorem url_round_trip_witness:
  "searchInput (state_of (loadFromURL (updateURL round_trip_state))) = searchInput round_trip_state
   \<and> set (selectedTags (state_of (loadFromURL (updateURL round_trip_state))))
       = set (selectedTags round_trip_state)
   \<and> filtered (loadFromURL (updateURL round_trip_state)) = filtered (applyFilters round_trip_state)"
  by (rule url_round_trip)
     (simp_all add: round_trip_state_def filter_state_def newLoader_def trim_def isSpace_def
       encodable_tag_def)

lemma round_trip_encoding:
  "urlParams (updateURL round_trip_state) = [(''search'', ''foo''), (''tags'', ''a,b'')]"
  by code_simp

text \<open>
  Outside these conditions the round trip changes the outcome. \<open>updateURL\<close> trims the
  query and \<open>applyFilters\<close> does not: the query \<open>kit \<close> matches nothing directly and
  matches \<open>Foo Kit\<close> after the round trip. A tag with a comma is split on decoding: the
  selected tag \<open>x,y\<close> is lost and every package is shown.
\<close>

theorem url_round_trip_counterexample:
  "filtered (applyFilters padded_query_state) = Inr []
   \<and> filtered (loadFromURL (updateURL padded_query_state)) = Inr [pkg_other]
   \<and> filtered (applyFilters comma_tag_state) = Inr [pkg_other]
   \<and> filtered (loadFromURL (updateURL comma_tag_state)) = Inr [pkg_other, pkg_my_package_1]
   \<and> selectedTags (state_of (loadFromURL (updateURL comma_tag_state))) = []"
  by code_simp

subsection \<open>Fallbacks for absent manifest fields\<close>

lemma loaded_None_iff: "loaded f = None \<longleftrightarrow> fetch_fails f"
  by (simp add: loaded_def fetch_fails_def split: fetched.splits body.splits)

lemma createPackageCard_named:
  assumes "name m = Some nm"
  shows "\<exists>c'. createPackageCard api m c
           = Inr (\<lparr>card_id = cardId nm,
                    card_displayName = js_or_literal (displayName m) nm,
                    card_authorName = resolveAuthor (author m) ''Unknown'',
                    card_description = description m,
                    card_status = js_or_literal (status_field m) ''unknown'',
                    card_version = version m,
                    card_downloads = formatCount (fst
                      (case releaseLink m of
                         None \<Rightarrow> (0, c)
                       | Some url \<Rightarrow> if url \<noteq> [] then fetchDownloadCount api url c else (0, c))),
                    card_tags = resolveTags m\<rparr>, c')"
  using assms by (simp add: createPackageCard_def split_beta)

text \<open>
  C4, as the code has it. For every manifest object that has a name, however many of
  its other fields are absent, \<open>createPackageCard\<close> returns a card, and the card shows:
  as displayName the manifest's when that is a non-empty string and the name otherwise;
  as author \<^verbatim>\<open>author.name\<close> when that is a non-empty string, else the author when it is a
  non-empty string, else the literal \<open>Unknown\<close> when the author is absent or the empty
  string, while an author object without a non-empty name is kept as the object itself;
  as status the manifest's, or \<open>unknown\<close>; as tags \<^verbatim>\<open>keywords\<close> when present, else
  \<^verbatim>\<open>tags\<close>, else none. The callback of \<open>applyFilters\<close> resolves the displayName and the
  tags to the same values, and the author to the same value except that an absent or
  empty author becomes the empty string, not \<open>Unknown\<close>. \<open>loadManifest\<close> drops a source
  exactly when its fetch fails (transport error, non-success status, body that does not
  parse); a manifest object received with a success status is returned as it is.
\<close>

theorem manifest_fallbacks:
  "(name m = Some nm \<longrightarrow>
      (\<exists>card c'. createPackageCard api m c = Inr (card, c')
         \<and> card_id card = cardId nm
         \<and> (truthy (displayName m) \<longrightarrow> Some (card_displayName card) = displayName m)
         \<and> (\<not> truthy (displayName m) \<longrightarrow> card_displayName card = nm)
         \<and> (author m = Some (AuthorObject (Some n)) \<and> n \<noteq> [] \<longrightarrow>
               card_authorName card = AuthorText n)
         \<and> (author m = Some (AuthorString a) \<and> a \<noteq> [] \<longrightarrow> card_authorName card = AuthorText a)
         \<and> (author m = None \<or> author m = Some (AuthorString []) \<longrightarrow>
               card_authorName card = AuthorText ''Unknown'')
         \<and> (author m = Some (AuthorObject None) \<or> author m = Some (AuthorObject (Some [])) \<longrightarrow>
               card_authorName card = AuthorObjectItself)
         \<and> (status_field m = Some st \<and> st \<noteq> [] \<longrightarrow> card_status card = st)
         \<and> (\<not> truthy (status_field m) \<longrightarrow> card_status card = ''unknown'')
         \<and> (keywords_field m = Some ks \<longrightarrow> card_tags card = ks)
         \<and> (keywords_field m = None \<and> tags m = Some ts \<longrightarrow> card_tags card = ts)
         \<and> (keywords_field m = None \<and> tags m = None \<longrightarrow> card_tags card = [])
         \<and> filter_displayName m = Some (card_displayName card)
         \<and> filter_tags m = card_tags card
         \<and> (card_authorName card \<noteq> AuthorText ''Unknown'' \<longrightarrow>
               filter_authorName m = card_authorName card)))
   \<and> (author m = None \<or> author m = Some (AuthorString []) \<longrightarrow> filter_authorName m = AuthorText [])
   \<and> (fst (loadManifest fetch repoUrl s) = None
        \<longleftrightarrow> fetch_fails (fetch (convertToRawUrl repoUrl @ ''/package.json'')))
   \<and> (fetch (convertToRawUrl repoUrl @ ''/package.json'')
          = Response \<lparr>ok = True, status = code, statusText = txt, json = Json m\<rparr>
        \<longrightarrow> fst (loadManifest fetch repoUrl s) = Some m)"
proof -
  have card: "name m = Some nm \<longrightarrow>
      (\<exists>card c'. createPackageCard api m c = Inr (card, c')
         \<and> card_id card = cardId nm
         \<and> (truthy (displayName m) \<longrightarrow> Some (card_displayName card) = displayName m)
         \<and> (\<not> truthy (displayName m) \<longrightarrow> card_displayName card = nm)
         \<and> (author m = Some (AuthorObject (Some n)) \<and> n \<noteq> [] \<longrightarrow>
               card_authorName card = AuthorText n)
         \<and> (author m = Some (AuthorString a) \<and> a \<noteq> [] \<longrightarrow> card_authorName card = AuthorText a)
         \<and> (author m = None \<or> author m = Some (AuthorString []) \<longrightarrow>
               card_authorName card = AuthorText ''Unknown'')
         \<and> (author m = Some (AuthorObject None) \<or> author m = Some (AuthorObject (Some [])) \<longrightarrow>
               card_authorName card = AuthorObjectItself)
         \<and> (status_field m = Some st \<and> st \<noteq> [] \<longrightarrow> card_status card = st)
         \<and> (\<not> truthy (status_field m) \<longrightarrow> card_status card = ''unknown'')
         \<and> (keywords_field m = Some ks \<longrightarrow> card_tags card = ks)
         \<and> (keywords_field m = None \<and> tags m = Some ts \<longrightarrow> card_tags card = ts)
         \<and> (keywords_field m = None \<and> tags m = None \<longrightarrow> card_tags card = [])
         \<and> filter_displayName m = Some (card_displayName card)
         \<and> filter_tags m = card_tags card
         \<and> (card_authorName card \<noteq> AuthorText ''Unknown'' \<longrightarrow>
               filter_authorName m = card_authorName card))"
  proof
    assume named: "name m = Some nm"
    from createPackageCard_named [OF named, of api c] obtain c' where
      made: "createPackageCard api m c
           = Inr (\<lparr>card_id = cardId nm,
                    card_displayName = js_or_literal (displayName m) nm,
                    card_authorName = resolveAuthor (author m) ''Unknown'',
                    card_description = description m,
                    card_status = js_or_literal (status_field m) ''unknown'',
                    card_version = version m,
                    card_downloads = formatCount (fst
                      (case releaseLink m of
                         None \<Rightarrow> (0, c)
                       | Some url \<Rightarrow> if url \<noteq> [] then fetchDownloadCount api url c else (0, c))),
                    card_tags = resolveTags m\<rparr>, c')"
      by blast
    have display: "(truthy (displayName m) \<longrightarrow> Some (js_or_literal (displayName m) nm) = displayName m)
        \<and> (\<not> truthy (displayName m) \<longrightarrow> js_or_literal (displayName m) nm = nm)
        \<and> filter_displayName m = Some (js_or_literal (displayName m) nm)"
      using named
      by (auto simp: js_or_literal_def js_or_def filter_displayName_def truthy_def
          split: option.splits)
    have authors: "(author m = Some (AuthorObject (Some n)) \<and> n \<noteq> [] \<longrightarrow>
          resolveAuthor (author m) ''Unknown'' = AuthorText n)
        \<and> (author m = Some (AuthorString a) \<and> a \<noteq> [] \<longrightarrow>
          resolveAuthor (author m) ''Unknown'' = AuthorText a)
        \<and> (author m = None \<or> author m = Some (AuthorString []) \<longrightarrow>
          resolveAuthor (author m) ''Unknown'' = AuthorText ''Unknown'')
        \<and> (author m = Some (AuthorObject None) \<or> author m = Some (AuthorObject (Some [])) \<longrightarrow>
          resolveAuthor (author m) ''Unknown'' = AuthorObjectItself)
        \<and> (resolveAuthor (author m) ''Unknown'' \<noteq> AuthorText ''Unknown'' \<longrightarrow>
          filter_authorName m = resolveAuthor (author m) ''Unknown'')"
      by (auto simp: resolveAuthor_def filter_authorName_def
          split: option.splits author_field.splits)
    have statuses: "(status_field m = Some st \<and> st \<noteq> [] \<longrightarrow>
          js_or_literal (status_field m) ''unknown'' = st)
        \<and> (\<not> truthy (status_field m) \<longrightarrow> js_or_literal (status_field m) ''unknown'' = ''unknown'')"
      by (auto simp: js_or_literal_def truthy_def split: option.splits)
    have tag_lists: "(keywords_field m = Some ks \<longrightarrow> resolveTags m = ks)
        \<and> (keywords_field m = None \<and> tags m = Some ts \<longrightarrow> resolveTags m = ts)
        \<and> (keywords_field m = None \<and> tags m = None \<longrightarrow> resolveTags m = [])
        \<and> filter_tags m = resolveTags m"
      by (auto simp: resolveTags_def filter_tags_def)
    show "\<exists>card c'. createPackageCard api m c = Inr (card, c')
         \<and> card_id card = cardId nm
         \<and> (truthy (displayName m) \<longrightarrow> Some (card_displayName card) = displayName m)
         \<and> (\<not> truthy (displayName m) \<longrightarrow> card_displayName card = nm)
         \<and> (author m = Some (AuthorObject (Some n)) \<and> n \<noteq> [] \<longrightarrow>
               card_authorName card = AuthorText n)
         \<and> (author m = Some (AuthorString a) \<and> a \<noteq> [] \<longrightarrow> card_authorName card = AuthorText a)
         \<and> (author m = None \<or> author m = Some (AuthorString []) \<longrightarrow>
               card_authorName card = AuthorText ''Unknown'')
         \<and> (author m = Some (AuthorObject None) \<or> author m = Some (AuthorObject (Some [])) \<longrightarrow>
               card_authorName card = AuthorObjectItself)
         \<and> (status_field m = Some st \<and> st \<noteq> [] \<longrightarrow> card_status card = st)
         \<and> (\<not> truthy (status_field m) \<longrightarrow> card_status card = ''unknown'')
         \<and> (keywords_field m = Some ks \<longrightarrow> card_tags card = ks)
         \<and> (keywords_field m = None \<and> tags m = Some ts \<longrightarrow> card_tags card = ts)
         \<and> (keywords_field m = None \<and> tags m = None \<longrightarrow> card_tags card = [])
         \<and> filter_displayName m = Some (card_displayName card)
         \<and> filter_tags m = card_tags card
         \<and> (card_authorName card \<noteq> AuthorText ''Unknown'' \<longrightarrow>
               filter_authorName m = card_authorName card)"
      apply (rule exI, rule exI, rule conjI, rule made)
      using display authors statuses tag_lists by simp
  qed
  have filter_author: "author m = None \<or> author m = Some (AuthorString []) \<longrightarrow>
      filter_authorName m = AuthorText []"
    by (auto simp: filter_authorName_def resolveAuthor_def)
  have dropped: "fst (loadManifest fetch repoUrl s) = None
        \<longleftrightarrow> fetch_fails (fetch (convertToRawUrl repoUrl @ ''/package.json''))"
    by (simp add: loadManifest_value loaded_None_iff)
  have kept: "fetch (convertToRawUrl repoUrl @ ''/package.json'')
          = Response \<lparr>ok = True, status = code, statusText = txt, json = Json m\<rparr>
        \<longrightarrow> fst (loadManifest fetch repoUrl s) = Some m"
    by (simp add: loadManifest_value loaded_def)
  from card filter_author dropped kept show ?thesis by blast
qed

theorem manifest_fallbacks_witness:
  "(\<exists>card. card_of (createPackageCard example_api pkg_my_package_1 constructor) = Some card
      \<and> card_displayName card = ''My Package 1''
      \<and> card_authorName card = AuthorText ''Unknown''
      \<and> card_status card = ''unknown''
      \<and> card_tags card = [''b'', ''a''])
   \<and> filter_authorName pkg_my_package_1 = AuthorText []
   \<and> fst (loadManifest (five_net 1) ''e'' (newLoader [] [])) = None
   \<and> (\<exists>card. card_of (createPackageCard example_api pkg_other constructor) = Some card
      \<and> card_displayName card = ''Foo Kit''
      \<and> card_authorName card = AuthorText ''Ann''
      \<and> card_status card = ''stable''
      \<and> card_tags card = [''x,y''])"
proof -
  have nm1: "name pkg_my_package_1 = Some ''My Package 1''"
    by (simp add: pkg_my_package_1_def)
  from manifest_fallbacks [where m = pkg_my_package_1 and nm = "''My Package 1''"
        and n = "[]" and a = "[]" and st = "[]" and ts = "[]"
        and ks = "[''b'', ''a'']" and api = example_api and c = constructor
        and fetch = "five_net 1" and repoUrl = "''e''" and s = "newLoader [] []",
        THEN conjunct1, THEN mp, OF nm1]
  obtain card1 c1 where
    made1: "createPackageCard example_api pkg_my_package_1 constructor = Inr (card1, c1)"
    and d1: "\<not> truthy (displayName pkg_my_package_1) \<longrightarrow> card_displayName card1 = ''My Package 1''"
    and a1: "author pkg_my_package_1 = None \<or> author pkg_my_package_1 = Some (AuthorString []) \<longrightarrow>
               card_authorName card1 = AuthorText ''Unknown''"
    and s1: "\<not> truthy (status_field pkg_my_package_1) \<longrightarrow> card_status card1 = ''unknown''"
    and t1: "keywords_field pkg_my_package_1 = Some [''b'', ''a''] \<longrightarrow> card_tags card1 = [''b'', ''a'']"
    by (elim exE conjE) (rule that; assumption)
  have f1: "author pkg_my_package_1 = None \<or> author pkg_my_package_1 = Some (AuthorString []) \<longrightarrow>
               filter_authorName pkg_my_package_1 = AuthorText []"
    by (rule manifest_fallbacks [where m = pkg_my_package_1 and nm = "''My Package 1''"
        and n = "[]" and a = "[]" and st = "[]" and ts = "[]"
        and ks = "[''b'', ''a'']" and api = example_api and c = constructor
        and fetch = "five_net 1" and repoUrl = "''e''" and s = "newLoader [] []",
        THEN conjunct2, THEN conjunct1])
  have l1: "fst (loadManifest (five_net 1) ''e'' (newLoader [] [])) = None
        \<longleftrightarrow> fetch_fails (five_net 1 (convertToRawUrl ''e'' @ ''/package.json''))"
    by (rule manifest_fallbacks [where m = pkg_my_package_1 and nm = "''My Package 1''"
        and n = "[]" and a = "[]" and st = "[]" and ts = "[]"
        and ks = "[''b'', ''a'']" and api = example_api and c = constructor
        and fetch = "five_net 1" and repoUrl = "''e''" and s = "newLoader [] []",
        THEN conjunct2, THEN conjunct2, THEN conjunct1])
  have absent: "(\<exists>card. card_of (createPackageCard example_api pkg_my_package_1 constructor) = Some card
      \<and> card_displayName card = ''My Package 1''
      \<and> card_authorName card = AuthorText ''Unknown''
      \<and> card_status card = ''unknown''
      \<and> card_tags card = [''b'', ''a''])
      \<and> filter_authorName pkg_my_package_1 = AuthorText []
      \<and> fst (loadManifest (five_net 1) ''e'' (newLoader [] [])) = None"
  proof (intro conjI exI)
    show "card_of (createPackageCard example_api pkg_my_package_1 constructor) = Some card1"
      by (simp add: made1 card_of_def)
    show "card_displayName card1 = ''My Package 1''"
      using d1 by (simp add: pkg_my_package_1_def truthy_def)
    show "card_authorName card1 = AuthorText ''Unknown''"
      using a1 by (simp add: pkg_my_package_1_def)
    show "card_status card1 = ''unknown''"
      using s1 by (simp add: pkg_my_package_1_def truthy_def)
    show "card_tags card1 = [''b'', ''a'']"
      using t1 by (simp add: pkg_my_package_1_def)
    show "filter_authorName pkg_my_package_1 = AuthorText []"
      using f1 by (simp add: pkg_my_package_1_def)
    show "fst (loadManifest (five_net 1) ''e'' (newLoader [] [])) = None"
      using l1 by (simp add: five_net_def fetch_fails_def)
  qed
  have nm2: "name pkg_other = Some ''other''"
    by (simp add: pkg_other_def)
  from manifest_fallbacks [where m = pkg_other and nm = "''other''" and n = "''Ann''"
        and a = "[]" and ks = "[]"
        and st = "''stable''" and ts = "[''x,y'']" and api = example_api and c = constructor
        and fetch = "five_net 1" and repoUrl = "''e''" and s = "newLoader [] []",
        THEN conjunct1, THEN mp, OF nm2]
  obtain card2 c2 where
    made2: "createPackageCard example_api pkg_other constructor = Inr (card2, c2)"
    and d2: "truthy (displayName pkg_other) \<longrightarrow> Some (card_displayName card2) = displayName pkg_other"
    and a2: "author pkg_other = Some (AuthorObject (Some ''Ann'')) \<and> ''Ann'' \<noteq> [] \<longrightarrow>
               card_authorName card2 = AuthorText ''Ann''"
    and s2: "status_field pkg_other = Some ''stable'' \<and> ''stable'' \<noteq> [] \<longrightarrow> card_status card2 = ''stable''"
    and t2: "keywords_field pkg_other = None \<and> tags pkg_other = Some [''x,y''] \<longrightarrow>
               card_tags card2 = [''x,y'']"
    by (elim exE conjE) (rule that; assumption)
  have present: "\<exists>card. card_of (createPackageCard example_api pkg_other constructor) = Some card
      \<and> card_displayName card = ''Foo Kit''
      \<and> card_authorName card = AuthorText ''Ann''
      \<and> card_status card = ''stable''
      \<and> card_tags card = [''x,y'']"
  proof (intro conjI exI)
    show "card_of (createPackageCard example_api pkg_other constructor) = Some card2"
      by (simp add: made2 card_of_def)
    show "card_displayName card2 = ''Foo Kit''"
      using d2 by (simp add: pkg_other_def truthy_def)
    show "card_authorName card2 = AuthorText ''Ann''"
      using a2 by (simp add: pkg_other_def)
    show "card_status card2 = ''stable''"
      using s2 by (simp add: pkg_other_def)
    show "card_tags card2 = [''x,y'']"
      using t2 by (simp add: pkg_other_def)
  qed
  from absent present show ?thesis by blast
qed

text \<open>
  Where the claim of the specification fails. A manifest without name makes
  \<open>createPackageCard\<close> throw. An author object without name is shown as the object
  itself, not as \<open>Unknown\<close>. And the filter does not use the literal \<open>Unknown\<close>: for a
  manifest without author the card shows \<open>Unknown\<close> while the filter compares with the
  empty string.
\<close>

theorem manifest_fallbacks_counterexample:
  "createPackageCard example_api pkg_nameless constructor = Inl TypeError
   \<and> map_option card_authorName (card_of (createPackageCard example_api pkg_anonymous constructor))
       = Some AuthorObjectItself
   \<and> author pkg_my_package_1 = None
   \<and> map_option card_authorName (card_of (createPackageCard example_api pkg_my_package_1 constructor))
       = Some (AuthorText ''Unknown'')
   \<and> filter_authorName pkg_my_package_1 = AuthorText []"
proof -
  have "createPackageCard example_api pkg_nameless constructor = Inl TypeError"
    by (simp add: createPackageCard_def pkg_nameless_def pkg_my_package_1_def)
  moreover have
    "map_option card_authorName (card_of (createPackageCard example_api pkg_anonymous constructor))
       = Some AuthorObjectItself
     \<and> author pkg_my_package_1 = None
     \<and> map_option card_authorName
          (card_of (createPackageCard example_api pkg_my_package_1 constructor))
       = Some (AuthorText ''Unknown'')
     \<and> filter_authorName pkg_my_package_1 = AuthorText []"
    by code_simp
  ultimately show ?thesis by blast
qed

end
